theory Spec2Isabelle
  imports Main "HOL-Library.Char_ord" "HOL-Library.List_Lexorder"
begin

section \<open>The expiry-aware key/value cache of vi.cache.cache\<close>

text \<open>
  A shallow embedding of the classes \<open>CacheBase\<close> and \<open>NewCache\<close> of
  \<open>src/vi/cache/cache.py\<close>. The SQLite store is an explicit state: the rows of the
  \<open>cache\<close> table in insertion order, and for the migration the two tables of the file.
  Every function that writes returns the state it leaves behind together with the exception
  it raised, if any. The state is the one the accessor's own connection sees, so a statement
  that ran before an exception stays visible in it.

  The code is read as Python 3 runs it: \<open>six.PY2\<close> is false, so \<open>to_blob\<close> and
  \<open>from_blob\<close> are the identity. \<open>utcnow()\<close> is \<open>time.mktime\<close> of a time tuple: the
  float of a \<open>time_t\<close>, a whole number of seconds. It is the argument \<open>now\<close> of every
  operation, an \<open>int\<close> that stands for that float.
\<close>

subsection \<open>Python values\<close>

text \<open>
  A Python \<open>str\<close> is a list of characters, \<open>bytes\<close> a list of bytes. \<open>scalar\<close> holds
  the values that serve as key, section and prefix: \<open>None\<close>, an integer or a string
  (a \<open>bool\<close>, a float or any other object as key is outside the model).
  \<open>pyval\<close> adds the structured objects a cache value may be.
\<close>

type_synonym bytes = "char list"

datatype scalar = PNone | PInt int | PStr string

datatype pyval =
    Prim scalar
  | PList "pyval list"
  | PTuple "pyval list"
  | PDict "(pyval \<times> pyval) list"

datatype error =
    ValueError
  | TypeError
  | IndexError
  | RecursionError
  | OverflowError
  | UnpicklingError
  | OperationalError string
  | IntegrityError

text \<open>\<open>str(n)\<close> for an integer: decimal digits, a leading minus sign when negative.\<close>

fun str_nat :: "nat \<Rightarrow> string" where
  "str_nat n =
     (if n < 10 then [''0123456789'' ! n]
      else str_nat (n div 10) @ [''0123456789'' ! (n mod 10)])"

declare str_nat.simps [simp del]

definition str_int :: "int \<Rightarrow> string" where
  "str_int i = (if i < 0 then CHR ''-'' # str_nat (nat (- i)) else str_nat (nat i))"

fun py_str :: "scalar \<Rightarrow> string" where
  "py_str PNone = ''None''"
| "py_str (PInt i) = str_int i"
| "py_str (PStr s) = s"

text \<open>\<open>sep.join(xs)\<close>.\<close>

fun join :: "string \<Rightarrow> string list \<Rightarrow> string" where
  "join sep [] = []"
| "join sep [x] = x"
| "join sep (x # y # ys) = x @ sep @ join sep (y # ys)"

text \<open>\<open>needle in haystack\<close> for two strings.\<close>

fun contains :: "string \<Rightarrow> string \<Rightarrow> bool" where
  "contains needle [] = (needle = [])"
| "contains needle (c # cs) =
     (take (length needle) (c # cs) = needle \<or> contains needle cs)"

subsection \<open>Floats\<close>

text \<open>
  \<open>now + expires\<close> adds an \<open>int\<close> to a float. Python converts the \<open>int\<close> to the
  nearest double, ties to the even significand, and raises \<open>OverflowError\<close> for an \<open>int\<close>
  that rounds beyond the largest double; the sum of the two doubles is the double nearest to
  their exact sum. Every double that occurs here is a whole number, and is held as an
  \<open>int\<close>. \<open>bit_length\<close> is \<open>int.bit_length\<close>; \<open>nearest_double\<close> rounds to 53
  significant bits.
\<close>

fun bit_length :: "nat \<Rightarrow> nat" where
  "bit_length n = (if n = 0 then 0 else Suc (bit_length (n div 2)))"

declare bit_length.simps [simp del]

definition nearest_double :: "int \<Rightarrow> int" where
  "nearest_double n =
     (let m = nat \<bar>n\<bar>;
          e = bit_length m - 53;
          q = m div 2 ^ e;
          r = m mod 2 ^ e;
          q' = (if 2 ^ e < 2 * r \<or> (2 * r = 2 ^ e \<and> odd q) then q + 1 else q)
      in sgn n * int (q' * 2 ^ e))"

definition float_of_int :: "int \<Rightarrow> error + int" where
  "float_of_int x =
     (let f = nearest_double x in if 2 ^ 1024 \<le> \<bar>f\<bar> then Inl OverflowError else Inr f)"

text \<open>
  \<open>a + x\<close> for a float \<open>a\<close> and an \<open>int\<close> \<open>x\<close>. The float is a clock value, the
  float of a \<open>time_t\<close> and so at most \<open>2 ^ 63\<close> in magnitude: added to a finite double it
  stays below the largest double, and the sum is \<open>nearest_double\<close> of the exact sum.
\<close>

definition float_plus_int :: "int \<Rightarrow> int \<Rightarrow> error + int" where
  "float_plus_int a x =
     (case float_of_int x of
        Inl err \<Rightarrow> Inl err
      | Inr fx \<Rightarrow> Inr (nearest_double (a + fx)))"

subsection \<open>The accessor\<close>

text \<open>
  \<open>DEFAULT_EXPIRES\<close> and \<open>NO_DEFAULT\<close> are the two sentinel objects of the module. An
  expiry argument is the sentinel or a number; a default argument is the sentinel or a value.
  An accessor holds its default expiry, its key prefix and its connection; of the connection
  the model keeps the largest number of \<open>?\<close> parameters it accepts in one statement
  (\<open>SQLITE_MAX_VARIABLE_NUMBER\<close> of the SQLite library in use).
\<close>

datatype expiry = DEFAULT_EXPIRES | Expires int

datatype default_arg = NO_DEFAULT | Default pyval

record accessor =
  default_expires :: expiry
  key_prefix :: scalar
  max_variable_number :: nat

definition get_key :: "accessor \<Rightarrow> scalar \<Rightarrow> scalar \<Rightarrow> string" where
  "get_key a k section =
     join '':'' (map py_str (filter (\<lambda>x. x \<noteq> PNone) [key_prefix a, section, k]))"

definition reverse_key :: "accessor \<Rightarrow> string \<Rightarrow> scalar \<Rightarrow> string" where
  "reverse_key a k section = drop (length (get_key a (PStr '''') section)) k"

definition get_expiry :: "accessor \<Rightarrow> expiry \<Rightarrow> error + int" where
  "get_expiry a e =
     (case e of
        Expires x \<Rightarrow> Inr x
      | DEFAULT_EXPIRES \<Rightarrow>
          (case default_expires a of
             DEFAULT_EXPIRES \<Rightarrow> Inl ValueError
           | Expires d \<Rightarrow> Inr d))"

subsection \<open>The codec\<close>

text \<open>
  \<open>pickle\<close> is a library outside the repository: its two functions are a parameter of the
  codec. \<open>fields\<close> is the triple \<open>(blobdata, intdata, stringdata)\<close>, each slot \<open>None\<close>
  or a value.
\<close>

record pickle =
  dumps :: "pyval \<Rightarrow> bytes"
  loads :: "bytes \<Rightarrow> error + pyval"

type_synonym fields = "bytes option \<times> int option \<times> string option"

definition to_blob :: "bytes \<Rightarrow> bytes" where
  "to_blob x = x"

definition from_blob :: "bytes \<Rightarrow> bytes" where
  "from_blob x = x"

fun to_python :: "pickle \<Rightarrow> fields \<Rightarrow> error + pyval" where
  "to_python p (blobdata, intdata, stringdata) =
     (case intdata of
        Some i \<Rightarrow> Inr (Prim (PInt i))
      | None \<Rightarrow>
          (case stringdata of
             Some s \<Rightarrow> Inr (Prim (PStr s))
           | None \<Rightarrow>
               (case blobdata of
                  None \<Rightarrow> Inl TypeError
                | Some b \<Rightarrow> loads p (from_blob b))))"

fun from_python :: "pickle \<Rightarrow> pyval \<Rightarrow> fields" where
  "from_python p (Prim (PInt i)) = (None, Some i, None)"
| "from_python p (Prim (PStr s)) = (None, None, Some s)"
| "from_python p obj = (Some (to_blob (dumps p obj)), None, None)"

text \<open>
  A serializer given by a finite table of values and their encodings, to run the codec on
  concrete values: \<open>dumps\<close> looks a value up, \<open>loads\<close> looks an encoding up
  and raises for bytes that encode nothing.
\<close>

definition table_pickle :: "(pyval \<times> bytes) list \<Rightarrow> pickle" where
  "table_pickle t =
     \<lparr>dumps = (\<lambda>v. case map_of t v of Some b \<Rightarrow> b | None \<Rightarrow> []),
      loads = (\<lambda>b. case map_of (map (\<lambda>(v, b). (b, v)) t) b of
                      Some v \<Rightarrow> Inr v | None \<Rightarrow> Inl UnpicklingError)\<rparr>"

text \<open>Exactly one of the three slots is not \<open>None\<close>.\<close>

definition one_of_three :: "fields \<Rightarrow> bool" where
  "one_of_three f =
     (case f of (b, i, s) \<Rightarrow>
        length (filter (\<lambda>x. x) [b \<noteq> None, i \<noteq> None, s \<noteq> None]) = 1)"

subsection \<open>The cache table and the statements run on it\<close>

text \<open>
  One row of \<open>cache (key VARCHAR PRIMARY KEY, blobdata BLOB, intdata INT,
  stringdata VARCHAR, expires INT NOT NULL)\<close>. The table is the list of its rows in
  insertion order.
\<close>

record row =
  key :: string
  blobdata :: "bytes option"
  intdata :: "int option"
  stringdata :: "string option"
  expires :: int

definition cache_columns :: "string list" where
  "cache_columns = [''key'', ''blobdata'', ''intdata'', ''stringdata'', ''expires'']"

text \<open>
  Binding a Python value to a \<open>?\<close>: \<open>None\<close> is \<open>NULL\<close>, a \<open>str\<close> is \<open>TEXT\<close>, an
  \<open>int\<close> is a 64-bit \<open>INTEGER\<close>, and the \<open>sqlite3\<close> module raises \<open>OverflowError\<close>
  for an \<open>int\<close> outside that range.
\<close>

datatype sqlval = SqlNull | SqlInteger int | SqlText string

definition fits_int64 :: "int \<Rightarrow> bool" where
  "fits_int64 i = (- (2 ^ 63) \<le> i \<and> i < 2 ^ 63)"

fun bind :: "scalar \<Rightarrow> error + sqlval" where
  "bind PNone = Inr SqlNull"
| "bind (PInt i) = (if fits_int64 i then Inr (SqlInteger i) else Inl OverflowError)"
| "bind (PStr s) = Inr (SqlText s)"

fun bind_all :: "scalar list \<Rightarrow> error + sqlval list" where
  "bind_all [] = Inr []"
| "bind_all (x # xs) =
     (case bind x of
        Inl e \<Rightarrow> Inl e
      | Inr v \<Rightarrow> (case bind_all xs of Inl e \<Rightarrow> Inl e | Inr vs \<Rightarrow> Inr (v # vs)))"

text \<open>
  \<open>key = ?\<close> and \<open>key IN (?, ...)\<close>: the column has TEXT affinity, so an \<open>INTEGER\<close>
  operand is converted to its decimal text before the comparison; a comparison with
  \<open>NULL\<close> is never true.
\<close>

fun key_equals :: "string \<Rightarrow> sqlval \<Rightarrow> bool" where
  "key_equals k SqlNull = False"
| "key_equals k (SqlInteger i) = (k = str_int i)"
| "key_equals k (SqlText s) = (k = s)"

definition key_in :: "sqlval list \<Rightarrow> row \<Rightarrow> bool" where
  "key_in vs r = list_ex (key_equals (key r)) vs"

text \<open>
  Preparing a statement fails with \<open>OperationalError\<close> when it has more \<open>?\<close> parameters
  than the connection accepts.
\<close>

definition too_many_variables :: "accessor \<Rightarrow> nat \<Rightarrow> bool" where
  "too_many_variables a n = (max_variable_number a < n)"

text \<open>
  The text substituted for \<open>{expired}\<close> in a \<open>SELECT\<close> names a column and compares it
  with the bound number. SQLite resolves the name against the table's columns when it
  prepares the statement, after it has parsed it, and raises \<open>OperationalError\<close> for a
  name that is not a column, with or without rows. The comparison is numeric on the two
  integer columns; a \<open>NULL\<close> is never selected, and neither is a text or blob, which sorts
  after every number. The rows are looked up through the index of the primary key and come
  in the order of their keys.
\<close>

datatype cmp = Le | Lt

fun compare :: "cmp \<Rightarrow> int \<Rightarrow> int \<Rightarrow> bool" where
  "compare Le x y = (x \<le> y)"
| "compare Lt x y = (x < y)"

definition numeric_column :: "string \<Rightarrow> row \<Rightarrow> int option" where
  "numeric_column c r =
     (if c = ''expires'' then Some (expires r)
      else if c = ''intdata'' then intdata r
      else None)"

definition select_cache ::
  "accessor \<Rightarrow> row list \<Rightarrow> sqlval list \<Rightarrow> (string \<times> cmp \<times> int) option
     \<Rightarrow> error + row list" where
  "select_cache a rows keys clause =
     (case clause of
        None \<Rightarrow>
          if too_many_variables a (length keys)
          then Inl (OperationalError ''too many SQL variables'')
          else Inr (sort_key key (filter (key_in keys) rows))
      | Some (c, op, t) \<Rightarrow>
          if too_many_variables a (length keys + 1)
          then Inl (OperationalError ''too many SQL variables'')
          else if c \<notin> set cache_columns
          then Inl (OperationalError (''no such column: '' @ c))
          else Inr (sort_key key (filter (\<lambda>r. key_in keys r \<and>
                 (case numeric_column c r of None \<Rightarrow> False | Some x \<Rightarrow> compare op x t)) rows)))"

text \<open>\<open>DELETE FROM cache WHERE key = ?\<close> and \<open>WHERE key IN (?, ...)\<close>.\<close>

definition delete_from_cache :: "row list \<Rightarrow> sqlval list \<Rightarrow> row list" where
  "delete_from_cache rows keys = filter (\<lambda>r. \<not> key_in keys r) rows"

definition execute_delete :: "accessor \<Rightarrow> row list \<Rightarrow> scalar list \<Rightarrow> error + row list" where
  "execute_delete a rows ks =
     (if too_many_variables a (length ks)
      then Inl (OperationalError ''too many SQL variables'')
      else case bind_all ks of
             Inl err \<Rightarrow> Inl err
           | Inr vs \<Rightarrow> Inr (delete_from_cache rows vs))"

text \<open>
  The resolved expiry is the caller's \<open>int\<close> or the float \<open>now + expires\<close>. The
  \<open>INT\<close> column holds the number either is; only the \<open>int\<close> can overflow when it is
  bound.
\<close>

datatype number = IntNumber int | FloatNumber int

fun bind_number :: "number \<Rightarrow> error + int" where
  "bind_number (IntNumber i) = (if fits_int64 i then Inr i else Inl OverflowError)"
| "bind_number (FloatNumber x) = Inr x"

text \<open>
  \<open>INSERT INTO cache (key, expires, blobdata, intdata, stringdata) VALUES (?, ?, ?, ?, ?)\<close>:
  the parameters are bound first, then the primary key is checked.
\<close>

fun insert_into_cache :: "row list \<Rightarrow> string \<times> number \<times> fields \<Rightarrow> error + row list" where
  "insert_into_cache rows (k, e, b, i, s) =
     (case bind_number e of
        Inl err \<Rightarrow> Inl err
      | Inr ex \<Rightarrow>
          if (case i of None \<Rightarrow> False | Some n \<Rightarrow> \<not> fits_int64 n) then Inl OverflowError
          else if k \<in> set (map key rows) then Inl IntegrityError
          else Inr (rows @ [\<lparr>key = k, blobdata = b, intdata = i, stringdata = s, expires = ex\<rparr>]))"

definition execute_insert ::
  "accessor \<Rightarrow> row list \<Rightarrow> string \<times> number \<times> fields \<Rightarrow> error + row list" where
  "execute_insert a rows x =
     (if too_many_variables a 5
      then Inl (OperationalError ''too many SQL variables'')
      else insert_into_cache rows x)"

text \<open>
  \<open>executemany\<close>: the statement is prepared once, then run for one parameter tuple after
  the other, stopping at the first exception.
\<close>

fun insert_all :: "row list \<Rightarrow> (string \<times> number \<times> fields) list \<Rightarrow> error option \<times> row list" where
  "insert_all rows [] = (None, rows)"
| "insert_all rows (x # xs) =
     (case insert_into_cache rows x of
        Inl err \<Rightarrow> (Some err, rows)
      | Inr rows' \<Rightarrow> insert_all rows' xs)"

definition executemany ::
  "accessor \<Rightarrow> row list \<Rightarrow> (string \<times> number \<times> fields) list \<Rightarrow> error option \<times> row list" where
  "executemany a rows xs =
     (if too_many_variables a 5
      then (Some (OperationalError ''too many SQL variables''), rows)
      else insert_all rows xs)"

subsection \<open>The operations of NewCache\<close>

definition row_fields :: "row \<Rightarrow> fields" where
  "row_fields r = (blobdata r, intdata r, stringdata r)"

definition row_ok :: "row \<Rightarrow> bool" where
  "row_ok r = one_of_three (row_fields r)"

definition get ::
  "accessor \<Rightarrow> pickle \<Rightarrow> row list \<Rightarrow> int \<Rightarrow> scalar \<Rightarrow> default_arg \<Rightarrow> scalar \<Rightarrow> bool
     \<Rightarrow> error + pyval" where
  "get a p rows now k dflt section allowExpired =
     (let full = get_key a k section;
          expired = (if allowExpired then Some (''expired'', Le, now) else None)
      in case select_cache a rows [SqlText full] expired of
           Inl err \<Rightarrow> Inl err
         | Inr [] \<Rightarrow> Inr (case dflt of NO_DEFAULT \<Rightarrow> Prim PNone | Default d \<Rightarrow> d)
         | Inr (r # _) \<Rightarrow> to_python p (row_fields r))"

fun collect ::
  "accessor \<Rightarrow> pickle \<Rightarrow> scalar \<Rightarrow> row list \<Rightarrow> (scalar \<rightharpoonup> pyval) \<Rightarrow> error + (scalar \<rightharpoonup> pyval)" where
  "collect a p section [] data = Inr data"
| "collect a p section (r # rs) data =
     (case to_python p (row_fields r) of
        Inl err \<Rightarrow> Inl err
      | Inr v \<Rightarrow> collect a p section rs (data(PStr (reverse_key a (key r) section) \<mapsto> v)))"

definition get_many ::
  "accessor \<Rightarrow> pickle \<Rightarrow> row list \<Rightarrow> int \<Rightarrow> scalar list \<Rightarrow> scalar \<Rightarrow> bool
     \<Rightarrow> error + (scalar \<rightharpoonup> pyval)" where
  "get_many a p rows now keys section allowExpired =
     (let expired = (if allowExpired then Some (''expired'', Lt, now) else None)
      in case select_cache a rows (map (\<lambda>k. SqlText (get_key a k section)) keys) expired of
           Inl err \<Rightarrow> Inl err
         | Inr found \<Rightarrow> collect a p section found Map.empty)"

text \<open>\<open>expires if expires > (60*60*24*7) else now + expires\<close>.\<close>

definition resolve_expires :: "int \<Rightarrow> int \<Rightarrow> error + number" where
  "resolve_expires now x =
     (if x > 60 * 60 * 24 * 7 then Inr (IntNumber x)
      else case float_plus_int now x of
             Inl err \<Rightarrow> Inl err
           | Inr s \<Rightarrow> Inr (FloatNumber s))"

definition set_cache ::
  "accessor \<Rightarrow> pickle \<Rightarrow> row list \<Rightarrow> int \<Rightarrow> scalar \<Rightarrow> pyval \<Rightarrow> expiry \<Rightarrow> scalar
     \<Rightarrow> error option \<times> row list" where
  "set_cache a p rows now k v e section =
     (case get_expiry a e of
        Inl err \<Rightarrow> (Some err, rows)
      | Inr x \<Rightarrow>
          (case resolve_expires now x of
             Inl err \<Rightarrow> (Some err, rows)
           | Inr ex \<Rightarrow>
               (let parameters = (get_key a k section, ex, from_python p v)
                in case execute_delete a rows [k] of
                     Inl err \<Rightarrow> (Some err, rows)
                   | Inr rows1 \<Rightarrow>
                       (case execute_insert a rows1 parameters of
                          Inl err \<Rightarrow> (Some err, rows1)
                        | Inr rows2 \<Rightarrow> (None, rows2)))))"

definition set_many ::
  "accessor \<Rightarrow> pickle \<Rightarrow> row list \<Rightarrow> int \<Rightarrow> (scalar \<times> pyval) list \<Rightarrow> expiry \<Rightarrow> scalar
     \<Rightarrow> error option \<times> row list" where
  "set_many a p rows now data e section =
     (case get_expiry a e of
        Inl err \<Rightarrow> (Some err, rows)
      | Inr x \<Rightarrow>
          (case resolve_expires now x of
             Inl err \<Rightarrow> (Some err, rows)
           | Inr ex \<Rightarrow>
               (let parameters = map (\<lambda>(k, v). (get_key a k section, ex, from_python p v)) data
                in case execute_delete a rows (map fst data) of
                     Inl err \<Rightarrow> (Some err, rows)
                   | Inr rows1 \<Rightarrow> executemany a rows1 parameters)))"

text \<open>
  \<open>delete\<close> calls \<open>self.delete([key], section=section)\<close>, that is, itself. The first
  argument counts the stack frames the interpreter still allows; with none left the call
  raises \<open>RecursionError\<close>.
\<close>

fun delete :: "nat \<Rightarrow> accessor \<Rightarrow> row list \<Rightarrow> pyval \<Rightarrow> scalar \<Rightarrow> error option \<times> row list" where
  "delete 0 a rows k section = (Some RecursionError, rows)"
| "delete (Suc frames) a rows k section = delete frames a rows (PList [k]) section"

definition delete_many ::
  "accessor \<Rightarrow> row list \<Rightarrow> scalar list \<Rightarrow> scalar \<Rightarrow> error option \<times> row list" where
  "delete_many a rows keys section =
     (if too_many_variables a (length keys)
      then (Some (OperationalError ''too many SQL variables''), rows)
      else (None, delete_from_cache rows (map (\<lambda>k. SqlText (get_key a k section)) keys)))"

subsection \<open>The schema migration of CacheBase\<close>

text \<open>
  A store file holds the \<open>version\<close> table (the list of its rows, each one integer) and
  the \<open>cache\<close> table; a table that was never created is \<open>None\<close>.
\<close>

record database =
  version_table :: "int list option"
  cache_table :: "row list option"

datatype statement = CREATE_TABLE_version | INSERT_INTO_version int | CREATE_TABLE_cache

definition UPDATES :: "(int \<times> statement list) list" where
  "UPDATES = [(1, [CREATE_TABLE_version, INSERT_INTO_version 0, CREATE_TABLE_cache])]"

definition CURRENT_VERSION :: int where
  "CURRENT_VERSION = 1"

fun execute :: "statement \<Rightarrow> database \<Rightarrow> error + database" where
  "execute CREATE_TABLE_version db =
     (case version_table db of
        Some _ \<Rightarrow> Inl (OperationalError ''table version already exists'')
      | None \<Rightarrow> Inr (db\<lparr>version_table := Some []\<rparr>))"
| "execute (INSERT_INTO_version v) db =
     (case version_table db of
        None \<Rightarrow> Inl (OperationalError ''no such table: version'')
      | Some vs \<Rightarrow> Inr (db\<lparr>version_table := Some (vs @ [v])\<rparr>))"
| "execute CREATE_TABLE_cache db =
     (case cache_table db of
        Some _ \<Rightarrow> Inl (OperationalError ''table cache already exists'')
      | None \<Rightarrow> Inr (db\<lparr>cache_table := Some []\<rparr>))"

fun execute_all :: "statement list \<Rightarrow> database \<Rightarrow> error + database" where
  "execute_all [] db = Inr db"
| "execute_all (q # qs) db =
     (case execute q db of Inl err \<Rightarrow> Inl err | Inr db' \<Rightarrow> execute_all qs db')"

text \<open>\<open>conn.execute("SELECT version FROM version").fetchall()[0][0]\<close>.\<close>

definition select_version :: "database \<Rightarrow> error + int" where
  "select_version db =
     (case version_table db of
        None \<Rightarrow> Inl (OperationalError ''no such table: version'')
      | Some [] \<Rightarrow> Inl IndexError
      | Some (v # _) \<Rightarrow> Inr v)"

text \<open>The \<open>try\<close> block around it: the two excepted failures leave \<open>version = 0\<close>.\<close>

definition probe_version :: "database \<Rightarrow> error + int" where
  "probe_version db =
     (case select_version db of
        Inr v \<Rightarrow> Inr v
      | Inl (OperationalError m) \<Rightarrow>
          if \<not> contains ''no such table'' m then Inl (OperationalError m) else Inr 0
      | Inl IndexError \<Rightarrow> Inr 0
      | Inl err \<Rightarrow> Inl err)"

definition queries :: "int \<Rightarrow> statement list" where
  "queries version =
     concat (map snd (filter (\<lambda>(patchlevel, updates). version < patchlevel) UPDATES))"

definition update_version :: "int \<Rightarrow> database \<Rightarrow> error + database" where
  "update_version v db =
     (case version_table db of
        None \<Rightarrow> Inl (OperationalError ''no such table: version'')
      | Some vs \<Rightarrow> Inr (db\<lparr>version_table := Some (map (\<lambda>_. v) vs)\<rparr>))"

text \<open>The sweeper: \<open>DELETE FROM cache WHERE expires < ?\<close> with the current time.\<close>

definition cleanup :: "int \<Rightarrow> database \<Rightarrow> error + database" where
  "cleanup now db =
     (case cache_table db of
        None \<Rightarrow> Inl (OperationalError ''no such table: cache'')
      | Some rows \<Rightarrow> Inr (db\<lparr>cache_table := Some (filter (\<lambda>r. \<not> expires r < now) rows)\<rparr>))"

definition check_version :: "int \<Rightarrow> database \<Rightarrow> error + database" where
  "check_version now db =
     (case probe_version db of
        Inl err \<Rightarrow> Inl err
      | Inr version \<Rightarrow>
          (case execute_all (queries version) db of
             Inl err \<Rightarrow> Inl err
           | Inr db1 \<Rightarrow>
               (case (if version \<noteq> CURRENT_VERSION then update_version CURRENT_VERSION db1
                      else Inr db1) of
                  Inl err \<Rightarrow> Inl err
                | Inr db2 \<Rightarrow> cleanup now db2)))"

text \<open>The schema of a store: its tables, each with its columns.\<close>

definition schema :: "database \<Rightarrow> (string \<times> string list) list" where
  "schema db =
     (case version_table db of None \<Rightarrow> [] | Some _ \<Rightarrow> [(''version'', [''version''])]) @
     (case cache_table db of None \<Rightarrow> [] | Some _ \<Rightarrow> [(''cache'', cache_columns)])"

definition recorded_version :: "database \<Rightarrow> int list" where
  "recorded_version db = (case version_table db of None \<Rightarrow> [] | Some vs \<Rightarrow> vs)"

section \<open>Properties\<close>

subsection \<open>Floats\<close>

lemma bit_length_le: "n < 2 ^ k \<Longrightarrow> bit_length n \<le> k"
proof (induction k arbitrary: n)
  case 0
  then show ?case by (simp add: bit_length.simps)
next
  case (Suc k)
  then have "n div 2 < 2 ^ k" by auto
  from Suc.IH [OF this] show ?case by (subst bit_length.simps) simp
qed

lemma nearest_double_exact:
  assumes "\<bar>n\<bar> < 2 ^ 53"
  shows "nearest_double n = n"
proof -
  from assms have "nat \<bar>n\<bar> < 2 ^ 53" by (simp add: nat_less_iff)
  from bit_length_le [OF this] have "bit_length (nat \<bar>n\<bar>) - 53 = 0" by simp
  then show ?thesis by (simp add: nearest_double_def Let_def sgn_if)
qed

lemma float_of_int_exact: "\<bar>n\<bar> < 2 ^ 53 \<Longrightarrow> float_of_int n = Inr n"
  by (simp add: float_of_int_def nearest_double_exact Let_def)

lemma float_plus_int_exact:
  "\<bar>x\<bar> < 2 ^ 53 \<Longrightarrow> \<bar>a + x\<bar> < 2 ^ 53 \<Longrightarrow> float_plus_int a x = Inr (a + x)"
  by (simp add: float_plus_int_def float_of_int_exact nearest_double_exact)

lemma float_plus_int_small:
  assumes "\<bar>a\<bar> < 2 ^ 52" and "- (2 ^ 52) < x" and "x \<le> 604800"
  shows "float_plus_int a x = Inr (a + x)"
proof -
  from assms have "\<bar>x\<bar> < 2 ^ 53" and "\<bar>a + x\<bar> < 2 ^ 53" by simp_all
  then show ?thesis by (rule float_plus_int_exact)
qed

lemma float_plus_int_error: "float_plus_int a x = Inl err \<Longrightarrow> err = OverflowError"
  by (auto simp: float_plus_int_def float_of_int_def Let_def split: sum.splits if_splits)

lemma resolve_expires_error: "resolve_expires now x = Inl err \<Longrightarrow> err = OverflowError"
  by (auto simp: resolve_expires_def split: if_splits sum.splits dest: float_plus_int_error)

lemma resolve_expires_small:
  "\<bar>now\<bar> < 2 ^ 52 \<Longrightarrow> - (2 ^ 52) < x \<Longrightarrow>
   resolve_expires now x = Inr (if 604800 < x then IntNumber x else FloatNumber (now + x))"
  by (simp add: resolve_expires_def float_plus_int_small)

lemma bit_length_upper: "n < 2 ^ bit_length n"
proof (induction n rule: bit_length.induct)
  case (1 n)
  show ?case
  proof (cases "n = 0")
    case True
    then show ?thesis by (simp add: bit_length.simps)
  next
    case False
    from 1 [OF False] have "n div 2 < 2 ^ bit_length (n div 2)" .
    then have "n < 2 * 2 ^ bit_length (n div 2)" by linarith
    with False show ?thesis by (subst bit_length.simps) simp
  qed
qed

lemma bit_length_lower: "0 < n \<Longrightarrow> 2 ^ (bit_length n - 1) \<le> n"
proof (induction n rule: bit_length.induct)
  case (1 n)
  from "1.prems" have n0: "n \<noteq> 0" by simp
  have bl: "bit_length n - 1 = bit_length (n div 2)"
    using n0 by (subst bit_length.simps) simp
  show ?case
  proof (cases "n div 2 = 0")
    case True
    then have "bit_length (n div 2) = 0" by (simp add: bit_length.simps)
    with "1.prems" show ?thesis unfolding bl by simp
  next
    case False
    then have pos: "0 < n div 2" by simp
    from "1.IH" [OF n0 pos] have ih: "2 ^ (bit_length (n div 2) - 1) \<le> n div 2" .
    have "0 < bit_length (n div 2)" using False by (subst bit_length.simps) simp
    then have "(2::nat) ^ bit_length (n div 2) = 2 * 2 ^ (bit_length (n div 2) - 1)"
      by (cases "bit_length (n div 2)") simp_all
    with ih have "(2::nat) ^ bit_length (n div 2) \<le> 2 * (n div 2)" by simp
    also have "\<dots> \<le> n" by simp
    finally have "2 ^ bit_length (n div 2) \<le> n" .
    then show ?thesis unfolding bl .
  qed
qed

lemma nearest_double_lower:
  assumes "2 ^ k \<le> \<bar>x\<bar>"
  shows "2 ^ k \<le> \<bar>nearest_double x\<bar>"
proof -
  define m where "m = nat \<bar>x\<bar>"
  define e where "e = bit_length m - 53"
  define q where "q = m div 2 ^ e"
  define r where "r = m mod 2 ^ e"
  define q' where "q' = (if 2 ^ e < 2 * r \<or> (2 * r = 2 ^ e \<and> odd q) then q + 1 else q)"
  from assms have mk: "2 ^ k \<le> m" unfolding m_def by (simp add: le_nat_iff)
  then have mpos: "0 < m" by (metis less_le_trans zero_less_numeral zero_less_power)
  from bit_length_lower [OF mpos] have low: "2 ^ (bit_length m - 1) \<le> m" .
  from mk bit_length_upper [of m] have "(2::nat) ^ k < 2 ^ bit_length m" by linarith
  then have kb: "k < bit_length m" by simp
  have "2 ^ k \<le> q * 2 ^ e"
  proof (cases "e = 0")
    case True
    with mk show ?thesis by (simp add: q_def)
  next
    case False
    then have b: "bit_length m - 1 = 52 + e" unfolding e_def by simp
    with low have "2 ^ 52 * 2 ^ e \<le> m" by (simp add: power_add)
    then have "2 ^ 52 \<le> q" unfolding q_def by (simp add: less_eq_div_iff_mult_less_eq)
    then have "2 ^ (52 + e) \<le> q * 2 ^ e" by (simp add: power_add)
    moreover from kb b have "k \<le> 52 + e" by simp
    then have "(2::nat) ^ k \<le> 2 ^ (52 + e)" by simp
    ultimately show ?thesis by linarith
  qed
  moreover have "q \<le> q'" by (simp add: q'_def)
  then have "q * 2 ^ e \<le> q' * 2 ^ e" by simp
  ultimately have v: "2 ^ k \<le> q' * 2 ^ e" by linarith
  from mpos have "x \<noteq> 0" unfolding m_def by auto
  then have "\<bar>nearest_double x\<bar> = int (q' * 2 ^ e)"
    unfolding nearest_double_def Let_def q'_def q_def r_def e_def m_def
    by (simp add: abs_mult abs_sgn_eq)
  with v show ?thesis by (metis of_nat_le_iff of_nat_numeral of_nat_power)
qed

lemma float_of_int_overflow: "2 ^ 1024 \<le> \<bar>x\<bar> \<Longrightarrow> float_of_int x = Inl OverflowError"
  using nearest_double_lower [of 1024 x] by (simp add: float_of_int_def Let_def)

lemma float_plus_int_overflow: "2 ^ 1024 \<le> \<bar>x\<bar> \<Longrightarrow> float_plus_int a x = Inl OverflowError"
  by (simp add: float_plus_int_def float_of_int_overflow)

lemma bit_length_tie: "bit_length 9007199254740993 = 54"
  by (simp add: bit_length.simps)

lemma nearest_double_tie: "nearest_double (- 9007199254740993) = - 9007199254740992"
  unfolding nearest_double_def by (simp add: bit_length_tie)

lemma float_plus_int_rounds:
  "float_plus_int 1700000000 (- 9007199254740993) = Inr (- 9007197554740992)"
  by (simp add: float_plus_int_def float_of_int_def nearest_double_tie nearest_double_exact)

subsection \<open>Keys\<close>

lemma get_key_split:
  "k \<noteq> PNone \<Longrightarrow> get_key a k sec = get_key a (PStr []) sec @ py_str k"
  by (simp add: get_key_def)

lemma reverse_get_key:
  "k \<noteq> PNone \<Longrightarrow> reverse_key a (get_key a k sec) sec = py_str k"
  by (simp add: reverse_key_def get_key_split [of k])

lemma get_key_int: "get_key a (PInt i) sec = get_key a (PStr (py_str (PInt i))) sec"
  by (simp add: get_key_def)

lemma str_int_5: "str_int 5 = ''5''"
  by (simp add: str_int_def str_nat.simps)

text \<open>
  Claim C5. For every prefix, section and string key, stripping the length of
  \<open>get_key('', section)\<close> from the full key gives the key back:
  \<open>reverse_key(get_key(key, section), section) = key\<close>. The full key is the join with
  \<open>:\<close> of the segments that are not \<open>None\<close>, which is the full key of the empty
  key followed by the key; what is stripped depends on the accessor and the section alone,
  so the equation holds whether or not a segment contains a colon.
\<close>

theorem key_reversible:
  "reverse_key a (get_key a (PStr s) sec) sec = s
   \<and> get_key a (PStr s) sec = get_key a (PStr []) sec @ s"
  using reverse_get_key [of "PStr s" a sec] get_key_split [of "PStr s" a sec] by simp

theorem key_reversible_witness:
  "reverse_key \<lparr>default_expires = DEFAULT_EXPIRES, key_prefix = PStr ''api'',
       max_variable_number = 999\<rparr>
     (get_key \<lparr>default_expires = DEFAULT_EXPIRES, key_prefix = PStr ''api'',
       max_variable_number = 999\<rparr>
        (PStr ''a:b'') (PStr ''sec'')) (PStr ''sec'') = ''a:b''
   \<and> get_key \<lparr>default_expires = DEFAULT_EXPIRES, key_prefix = PStr ''api'',
       max_variable_number = 999\<rparr>
        (PStr ''a:b'') (PStr ''sec'') = ''api:sec:a:b''"
  using key_reversible
    [of "\<lparr>default_expires = DEFAULT_EXPIRES, key_prefix = PStr ''api'',
       max_variable_number = 999\<rparr>" "''a:b''" "PStr ''sec''"]
  by (simp add: get_key_def)

subsection \<open>The codec\<close>

lemma from_python_blob:
  "(\<forall>i. v \<noteq> Prim (PInt i)) \<Longrightarrow> (\<forall>s. v \<noteq> Prim (PStr s)) \<Longrightarrow>
   from_python p v = (Some (dumps p v), None, None)"
  by (cases "(p, v)" rule: from_python.cases) (simp_all add: to_blob_def)

lemma one_of_three_from_python: "one_of_three (from_python p v)"
  by (cases "(p, v)" rule: from_python.cases) (simp_all add: one_of_three_def)

text \<open>
  Claim C4. Decoding the encoding of a value gives the value back:
  \<open>to_python(from_python(v)) = v\<close> for every integer and every string, and for every
  other value that the serializer itself round-trips (\<open>loads(dumps(v)) = v\<close>, the
  property of \<open>pickle\<close> the codec relies on). An integer goes to the integer slot, a
  string to the string slot, anything else to the blob slot.
\<close>

theorem codec_round_trip:
  assumes "(\<forall>i. v \<noteq> Prim (PInt i)) \<Longrightarrow> (\<forall>s. v \<noteq> Prim (PStr s))
             \<Longrightarrow> loads p (dumps p v) = Inr v"
  shows "to_python p (from_python p v) = Inr v"
proof (cases "(\<exists>i. v = Prim (PInt i)) \<or> (\<exists>s. v = Prim (PStr s))")
  case True
  then show ?thesis by auto
next
  case False
  then have ni: "\<forall>i. v \<noteq> Prim (PInt i)" and ns: "\<forall>s. v \<noteq> Prim (PStr s)" by auto
  from assms [OF ni ns] from_python_blob [OF ni ns, of p]
  show ?thesis by (simp add: from_blob_def)
qed

theorem codec_round_trip_witness:
  "to_python (table_pickle [(PList [Prim (PInt 1), Prim (PStr ''a'')], ''L1a'')])
     (from_python (table_pickle [(PList [Prim (PInt 1), Prim (PStr ''a'')], ''L1a'')])
        (PList [Prim (PInt 1), Prim (PStr ''a'')]))
     = Inr (PList [Prim (PInt 1), Prim (PStr ''a'')])
   \<and> loads (table_pickle [(PList [Prim (PInt 1), Prim (PStr ''a'')], ''L1a'')])
        (dumps (table_pickle [(PList [Prim (PInt 1), Prim (PStr ''a'')], ''L1a'')])
           (PList [Prim (PInt 1), Prim (PStr ''a'')]))
     = Inr (PList [Prim (PInt 1), Prim (PStr ''a'')])
   \<and> to_python (table_pickle []) (from_python (table_pickle []) (Prim (PInt (- 7))))
     = Inr (Prim (PInt (- 7)))
   \<and> to_python (table_pickle []) (from_python (table_pickle []) (Prim (PStr [])))
     = Inr (Prim (PStr []))"
proof -
  let ?p = "table_pickle [(PList [Prim (PInt 1), Prim (PStr ''a'')], ''L1a'')]"
  let ?v = "PList [Prim (PInt 1), Prim (PStr ''a'')]"
  have h: "loads ?p (dumps ?p ?v) = Inr ?v" by (simp add: table_pickle_def)
  from codec_round_trip [of ?v ?p] h
  have 1: "to_python ?p (from_python ?p ?v) = Inr ?v" by simp
  from codec_round_trip [of "Prim (PInt (- 7))" "table_pickle []"]
  have 2: "to_python (table_pickle []) (from_python (table_pickle []) (Prim (PInt (- 7))))
     = Inr (Prim (PInt (- 7)))" by simp
  from codec_round_trip [of "Prim (PStr [])" "table_pickle []"]
  have 3: "to_python (table_pickle []) (from_python (table_pickle []) (Prim (PStr [])))
     = Inr (Prim (PStr []))" by simp
  from 1 h 2 3 show ?thesis by blast
qed

subsection \<open>Exceptions of the statements\<close>

lemma bind_not_ValueError: "bind k \<noteq> Inl ValueError"
  by (cases k) auto

lemma bind_all_not_ValueError: "bind_all ks \<noteq> Inl ValueError"
  by (induction ks) (auto split: sum.splits simp: bind_not_ValueError)

lemma bind_number_error: "bind_number e = Inl err \<Longrightarrow> err = OverflowError"
  by (cases e) (auto split: if_splits)

lemma insert_error:
  "insert_into_cache rows x = Inl err \<Longrightarrow> err = OverflowError \<or> err = IntegrityError"
  by (cases "(rows, x)" rule: insert_into_cache.cases)
     (auto split: sum.splits if_splits dest: bind_number_error)

lemma insert_not_ValueError: "insert_into_cache rows x \<noteq> Inl ValueError"
  using insert_error [of rows x ValueError] by auto

lemma insert_all_not_ValueError: "fst (insert_all rows xs) \<noteq> Some ValueError"
  by (induction xs arbitrary: rows)
     (auto split: sum.splits simp: insert_not_ValueError simp del: insert_into_cache.simps)

lemma executemany_not_ValueError: "fst (executemany a rows xs) \<noteq> Some ValueError"
  by (simp add: executemany_def insert_all_not_ValueError)

lemma execute_insert_not_ValueError: "execute_insert a rows x \<noteq> Inl ValueError"
  by (simp add: execute_insert_def insert_not_ValueError)

lemma execute_delete_not_ValueError: "execute_delete a rows ks \<noteq> Inl ValueError"
  using bind_all_not_ValueError [of ks]
  by (auto simp: execute_delete_def split: sum.splits)

lemma resolve_expires_not_ValueError: "resolve_expires now x \<noteq> Inl ValueError"
  using resolve_expires_error [of now x ValueError] by auto

lemma get_expiry_ValueError:
  "get_expiry a e = Inl err \<longleftrightarrow>
     (err = ValueError \<and> e = DEFAULT_EXPIRES \<and> default_expires a = DEFAULT_EXPIRES)"
  by (auto simp: get_expiry_def split: expiry.splits)

text \<open>
  Claim C7. \<open>set\<close> and \<open>set_many\<close> raise the \<open>ValueError\<close> of \<open>_get_expiry\<close> (the
  spec's MissingExpiry) exactly when no expiry is passed and the accessor has no default;
  the exception comes before any statement runs, so the table is left as it was. With an
  explicit expiry or a default, the call never ends with this exception.
\<close>

theorem missing_expiry:
  "(fst (set_cache a p rows now k v e sec) = Some ValueError
      \<longleftrightarrow> e = DEFAULT_EXPIRES \<and> default_expires a = DEFAULT_EXPIRES)
   \<and> (fst (set_many a p rows now data e sec) = Some ValueError
      \<longleftrightarrow> e = DEFAULT_EXPIRES \<and> default_expires a = DEFAULT_EXPIRES)
   \<and> (e = DEFAULT_EXPIRES \<and> default_expires a = DEFAULT_EXPIRES \<longrightarrow>
        set_cache a p rows now k v e sec = (Some ValueError, rows)
        \<and> set_many a p rows now data e sec = (Some ValueError, rows))"
proof -
  have 1: "fst (set_cache a p rows now k v e sec) = Some ValueError
      \<longleftrightarrow> e = DEFAULT_EXPIRES \<and> default_expires a = DEFAULT_EXPIRES"
  proof (cases "get_expiry a e")
    case (Inl err)
    then show ?thesis using get_expiry_ValueError [of a e err] by (simp add: set_cache_def)
  next
    case (Inr x)
    then have "\<not> (e = DEFAULT_EXPIRES \<and> default_expires a = DEFAULT_EXPIRES)"
      using get_expiry_ValueError [of a e ValueError] by auto
    moreover have "fst (set_cache a p rows now k v e sec) \<noteq> Some ValueError"
      using Inr
      by (auto simp: set_cache_def Let_def execute_insert_not_ValueError
                 execute_delete_not_ValueError resolve_expires_not_ValueError
               split: sum.splits)
    ultimately show ?thesis by simp
  qed
  have 2: "fst (set_many a p rows now data e sec) = Some ValueError
      \<longleftrightarrow> e = DEFAULT_EXPIRES \<and> default_expires a = DEFAULT_EXPIRES"
  proof (cases "get_expiry a e")
    case (Inl err)
    then show ?thesis using get_expiry_ValueError [of a e err] by (simp add: set_many_def)
  next
    case (Inr x)
    then have "\<not> (e = DEFAULT_EXPIRES \<and> default_expires a = DEFAULT_EXPIRES)"
      using get_expiry_ValueError [of a e ValueError] by auto
    moreover have "fst (set_many a p rows now data e sec) \<noteq> Some ValueError"
      using Inr
      by (auto simp: set_many_def Let_def executemany_not_ValueError
                 execute_delete_not_ValueError resolve_expires_not_ValueError
               split: sum.splits)
    ultimately show ?thesis by simp
  qed
  have 3: "e = DEFAULT_EXPIRES \<and> default_expires a = DEFAULT_EXPIRES \<longrightarrow>
        set_cache a p rows now k v e sec = (Some ValueError, rows)
        \<and> set_many a p rows now data e sec = (Some ValueError, rows)"
    by (simp add: set_cache_def set_many_def get_expiry_def)
  from 1 2 3 show ?thesis by blast
qed

theorem missing_expiry_witness:
  "set_cache \<lparr>default_expires = DEFAULT_EXPIRES, key_prefix = PNone,
       max_variable_number = 999\<rparr> (table_pickle [])
      [\<lparr>key = ''x'', blobdata = None, intdata = Some 1, stringdata = None, expires = 1700000060\<rparr>]
      1700000000 (PStr ''x'') (Prim (PInt 2)) DEFAULT_EXPIRES PNone
     = (Some ValueError,
        [\<lparr>key = ''x'', blobdata = None, intdata = Some 1, stringdata = None, expires = 1700000060\<rparr>])
   \<and> set_many \<lparr>default_expires = DEFAULT_EXPIRES, key_prefix = PNone,
       max_variable_number = 999\<rparr> (table_pickle [])
      [\<lparr>key = ''x'', blobdata = None, intdata = Some 1, stringdata = None, expires = 1700000060\<rparr>]
      1700000000 [(PStr ''x'', Prim (PInt 2))] DEFAULT_EXPIRES PNone
     = (Some ValueError,
        [\<lparr>key = ''x'', blobdata = None, intdata = Some 1, stringdata = None, expires = 1700000060\<rparr>])
   \<and> fst (set_cache \<lparr>default_expires = DEFAULT_EXPIRES, key_prefix = PNone,
       max_variable_number = 999\<rparr> (table_pickle [])
      [] 1700000000 (PStr ''x'') (Prim (PInt 2)) (Expires 60) PNone) \<noteq> Some ValueError
   \<and> fst (set_cache \<lparr>default_expires = Expires 60, key_prefix = PNone,
       max_variable_number = 999\<rparr> (table_pickle [])
      [] 1700000000 (PStr ''x'') (Prim (PInt 2)) DEFAULT_EXPIRES PNone) \<noteq> Some ValueError"
proof -
  let ?a = "\<lparr>default_expires = DEFAULT_EXPIRES, key_prefix = PNone,
       max_variable_number = 999\<rparr>"
  let ?b = "\<lparr>default_expires = Expires 60, key_prefix = PNone,
       max_variable_number = 999\<rparr>"
  let ?rows = "[\<lparr>key = ''x'', blobdata = None, intdata = Some 1, stringdata = None,
                  expires = 1700000060\<rparr>]"
  from missing_expiry [of ?a "table_pickle []" ?rows 1700000000 "PStr ''x''" "Prim (PInt 2)"
      DEFAULT_EXPIRES PNone "[(PStr ''x'', Prim (PInt 2))]"]
  have 1: "set_cache ?a (table_pickle []) ?rows 1700000000 (PStr ''x'') (Prim (PInt 2))
             DEFAULT_EXPIRES PNone = (Some ValueError, ?rows)
         \<and> set_many ?a (table_pickle []) ?rows 1700000000 [(PStr ''x'', Prim (PInt 2))]
             DEFAULT_EXPIRES PNone = (Some ValueError, ?rows)"
    by simp
  from missing_expiry [of ?a "table_pickle []" "[]" 1700000000 "PStr ''x''" "Prim (PInt 2)"
      "Expires 60" PNone "[]"]
  have 2: "fst (set_cache ?a (table_pickle []) [] 1700000000 (PStr ''x'') (Prim (PInt 2))
             (Expires 60) PNone) \<noteq> Some ValueError"
    by simp
  from missing_expiry [of ?b "table_pickle []" "[]" 1700000000 "PStr ''x''" "Prim (PInt 2)"
      DEFAULT_EXPIRES PNone "[]"]
  have 3: "fst (set_cache ?b (table_pickle []) [] 1700000000 (PStr ''x'') (Prim (PInt 2))
             DEFAULT_EXPIRES PNone) \<noteq> Some ValueError"
    by simp
  from 1 2 3 show ?thesis by blast
qed

subsection \<open>Rows written by set and set_many\<close>

lemma insert_success:
  "insert_into_cache rows (k, e, f) = Inr rows' \<Longrightarrow>
   \<exists>ex. bind_number e = Inr ex \<and> k \<notin> key ` set rows \<and>
        rows' = rows @ [\<lparr>key = k, blobdata = fst f, intdata = fst (snd f),
                          stringdata = snd (snd f), expires = ex\<rparr>]"
  by (cases f) (auto split: sum.splits if_splits)

lemma bind_resolved:
  "resolve_expires now x = Inr n \<Longrightarrow> bind_number n = Inr ex \<Longrightarrow>
   (if 604800 < x then ex = x else float_plus_int now x = Inr ex)"
  by (auto simp: resolve_expires_def split: if_splits sum.splits)

lemma insert_new_key:
  assumes ins: "insert_into_cache rows (k, e, f) = Inr rows'"
  shows "\<exists>r. filter (\<lambda>r. key r = k) rows' = [r] \<and> bind_number e = Inr (expires r)
            \<and> row_fields r = f"
proof -
  from insert_success [OF ins] obtain ex where
    b: "bind_number e = Inr ex" and nk: "k \<notin> key ` set rows" and
    r: "rows' = rows @ [\<lparr>key = k, blobdata = fst f, intdata = fst (snd f),
                          stringdata = snd (snd f), expires = ex\<rparr>]" by blast
  from nk have "filter (\<lambda>r. key r = k) rows = []" by (auto simp: filter_empty_conv)
  with r b show ?thesis by (simp add: row_fields_def)
qed

lemma insert_keeps_key:
  assumes ins: "insert_into_cache rows (k', e, f) = Inr rows'"
    and one: "filter (\<lambda>r. key r = k) rows = [r]"
  shows "filter (\<lambda>r. key r = k) rows' = [r]"
proof -
  from one have "r \<in> set (filter (\<lambda>r. key r = k) rows)" by simp
  then have "k \<in> key ` set rows" by auto
  with insert_success [OF ins] have "k' \<noteq> k" by auto
  with insert_success [OF ins] one show ?thesis by auto
qed

lemma insert_all_step:
  assumes "insert_all rows ((k, e, f) # xs) = (None, rows')"
  obtains rows1 where "insert_into_cache rows (k, e, f) = Inr rows1"
    and "insert_all rows1 xs = (None, rows')"
  using assms
  by (cases "insert_into_cache rows (k, e, f)") (simp_all del: insert_into_cache.simps)

lemma insert_all_keeps_key:
  "insert_all rows xs = (None, rows') \<Longrightarrow> filter (\<lambda>r. key r = k) rows = [r] \<Longrightarrow>
   filter (\<lambda>r. key r = k) rows' = [r]"
proof (induction xs arbitrary: rows)
  case Nil
  then show ?case by simp
next
  case (Cons x xs)
  obtain k' e f where x: "x = (k', e, f)" by (cases x) auto
  from Cons.prems(1) obtain rows1 where
    ins: "insert_into_cache rows (k', e, f) = Inr rows1" and
    rest: "insert_all rows1 xs = (None, rows')"
    unfolding x by (rule insert_all_step)
  from Cons.IH [OF rest insert_keeps_key [OF ins Cons.prems(2)]] show ?case .
qed

lemma insert_all_stores:
  "insert_all rows xs = (None, rows') \<Longrightarrow> (k, e, f) \<in> set xs \<Longrightarrow>
   \<exists>r. filter (\<lambda>r. key r = k) rows' = [r] \<and> bind_number e = Inr (expires r)
       \<and> row_fields r = f"
proof (induction xs arbitrary: rows)
  case Nil
  then show ?case by simp
next
  case (Cons x xs)
  obtain k' e' f' where x: "x = (k', e', f')" by (cases x) auto
  from Cons.prems(1) obtain rows1 where
    ins: "insert_into_cache rows (k', e', f') = Inr rows1" and
    rest: "insert_all rows1 xs = (None, rows')"
    unfolding x by (rule insert_all_step)
  show ?case
  proof (cases "(k, e, f) \<in> set xs")
    case True
    from Cons.IH [OF rest True] show ?thesis .
  next
    case False
    with Cons.prems(2) x have eq: "k' = k" "e' = e" "f' = f" by auto
    from insert_new_key [OF ins] obtain r where
      r: "filter (\<lambda>r. key r = k') rows1 = [r]" "bind_number e' = Inr (expires r)"
         "row_fields r = f'"
      by blast
    from insert_all_keeps_key [OF rest r(1)] r eq show ?thesis by auto
  qed
qed

lemma set_cache_stores:
  assumes "get_expiry a e = Inr x"
    and "set_cache a p rows now k v e sec = (None, rows')"
  shows "\<exists>r. filter (\<lambda>r. key r = get_key a k sec) rows' = [r]
            \<and> (if 604800 < x then expires r = x else float_plus_int now x = Inr (expires r))
            \<and> row_fields r = from_python p v"
proof -
  from assms obtain n rows1 where
    res: "resolve_expires now x = Inr n" and
    ins: "insert_into_cache rows1 (get_key a k sec, n, from_python p v) = Inr rows'"
    by (auto simp: set_cache_def Let_def execute_insert_def
          split: sum.splits if_splits simp del: insert_into_cache.simps)
  from insert_new_key [OF ins] obtain r where
    r: "filter (\<lambda>r. key r = get_key a k sec) rows' = [r]" "bind_number n = Inr (expires r)"
       "row_fields r = from_python p v"
    by blast
  from bind_resolved [OF res r(2)] r show ?thesis by blast
qed

lemma set_many_stores:
  assumes "get_expiry a e = Inr x"
    and "set_many a p rows now data e sec = (None, rows')"
    and "(k, v) \<in> set data"
  shows "\<exists>r. filter (\<lambda>r. key r = get_key a k sec) rows' = [r]
            \<and> (if 604800 < x then expires r = x else float_plus_int now x = Inr (expires r))
            \<and> row_fields r = from_python p v"
proof -
  from assms(1,2) obtain n rows1 where
    res: "resolve_expires now x = Inr n" and
    ex: "insert_all rows1 (map (\<lambda>(k, v). (get_key a k sec, n, from_python p v)) data)
           = (None, rows')"
    by (auto simp: set_many_def Let_def executemany_def split: sum.splits if_splits)
  from assms(3) have "(get_key a k sec, n, from_python p v)
       \<in> set (map (\<lambda>(k, v). (get_key a k sec, n, from_python p v)) data)"
    by force
  from insert_all_stores [OF ex this] obtain r where
    r: "filter (\<lambda>r. key r = get_key a k sec) rows' = [r]" "bind_number n = Inr (expires r)"
       "row_fields r = from_python p v"
    by blast
  from bind_resolved [OF res r(2)] r show ?thesis by blast
qed

lemma stored_exact:
  assumes s: "if 604800 < x then ex = x else float_plus_int now x = Inr ex"
    and b: "\<bar>now\<bar> < 2 ^ 52" "- (2 ^ 52) < x"
  shows "ex = (if 604800 < x then x else now + x) \<and> (now \<noteq> 0 \<longrightarrow> (ex = x \<longleftrightarrow> 604800 < x))"
proof (cases "604800 < x")
  case True
  with s show ?thesis by simp
next
  case False
  with b have "float_plus_int now x = Inr (now + x)" by (simp add: float_plus_int_small)
  with s False show ?thesis by simp
qed

text \<open>
  Claim C6. Let \<open>x\<close> be the expiry that \<open>_get_expiry\<close> resolves. When \<open>set\<close> (or
  \<open>set_many\<close>) completes, the table holds exactly one row for the full key (for each full
  key of the batch), and its \<open>expires\<close> column is \<open>x\<close> itself if \<open>x > 604800\<close> and
  the sum \<open>now + x\<close> that Python computes otherwise, a float addition. For a clock value
  below \<open>2 ^ 52\<close> in magnitude and a duration above \<open>- (2 ^ 52)\<close>, that sum is the
  integer \<open>now + x\<close>, and, at any time other than the epoch, the value is stored as it was
  passed if and only if it is larger than the 604800 seconds of one week.
\<close>

theorem stored_expiry:
  assumes "get_expiry a e = Inr x"
  shows "(set_cache a p rows now k v e sec = (None, rows') \<longrightarrow>
           (\<exists>r. filter (\<lambda>r. key r = get_key a k sec) rows' = [r]
               \<and> (if 604800 < x then expires r = x
                   else float_plus_int now x = Inr (expires r))
               \<and> (\<bar>now\<bar> < 2 ^ 52 \<and> - (2 ^ 52) < x \<longrightarrow>
                     expires r = (if 604800 < x then x else now + x)
                     \<and> (now \<noteq> 0 \<longrightarrow> (expires r = x \<longleftrightarrow> 604800 < x)))))
       \<and> (set_many a p rows now data e sec = (None, rows') \<longrightarrow>
           (\<forall>(k, v) \<in> set data.
              \<exists>r. filter (\<lambda>r. key r = get_key a k sec) rows' = [r]
                \<and> (if 604800 < x then expires r = x
                    else float_plus_int now x = Inr (expires r))
                \<and> (\<bar>now\<bar> < 2 ^ 52 \<and> - (2 ^ 52) < x \<longrightarrow>
                      expires r = (if 604800 < x then x else now + x)
                      \<and> (now \<noteq> 0 \<longrightarrow> (expires r = x \<longleftrightarrow> 604800 < x)))))"
proof (intro conjI impI)
  assume "set_cache a p rows now k v e sec = (None, rows')"
  from set_cache_stores [OF assms this] obtain r where
    r: "filter (\<lambda>r. key r = get_key a k sec) rows' = [r]"
       "if 604800 < x then expires r = x else float_plus_int now x = Inr (expires r)" by blast
  from stored_exact [OF r(2)] r
  show "\<exists>r. filter (\<lambda>r. key r = get_key a k sec) rows' = [r]
               \<and> (if 604800 < x then expires r = x
                   else float_plus_int now x = Inr (expires r))
               \<and> (\<bar>now\<bar> < 2 ^ 52 \<and> - (2 ^ 52) < x \<longrightarrow>
                     expires r = (if 604800 < x then x else now + x)
                     \<and> (now \<noteq> 0 \<longrightarrow> (expires r = x \<longleftrightarrow> 604800 < x)))"
    by blast
next
  assume many: "set_many a p rows now data e sec = (None, rows')"
  show "\<forall>(k, v) \<in> set data.
              \<exists>r. filter (\<lambda>r. key r = get_key a k sec) rows' = [r]
                \<and> (if 604800 < x then expires r = x
                    else float_plus_int now x = Inr (expires r))
                \<and> (\<bar>now\<bar> < 2 ^ 52 \<and> - (2 ^ 52) < x \<longrightarrow>
                      expires r = (if 604800 < x then x else now + x)
                      \<and> (now \<noteq> 0 \<longrightarrow> (expires r = x \<longleftrightarrow> 604800 < x)))"
  proof clarify
    fix k v assume "(k, v) \<in> set data"
    from set_many_stores [OF assms many this] obtain r where
      r: "filter (\<lambda>r. key r = get_key a k sec) rows' = [r]"
         "if 604800 < x then expires r = x else float_plus_int now x = Inr (expires r)" by blast
    from stored_exact [OF r(2)] r
    show "\<exists>r. filter (\<lambda>r. key r = get_key a k sec) rows' = [r]
               \<and> (if 604800 < x then expires r = x
                   else float_plus_int now x = Inr (expires r))
               \<and> (\<bar>now\<bar> < 2 ^ 52 \<and> - (2 ^ 52) < x \<longrightarrow>
                     expires r = (if 604800 < x then x else now + x)
                     \<and> (now \<noteq> 0 \<longrightarrow> (expires r = x \<longleftrightarrow> 604800 < x)))"
      by blast
  qed
qed

theorem stored_expiry_witness:
  "get_expiry \<lparr>default_expires = Expires 604800, key_prefix = PNone,
       max_variable_number = 999\<rparr> DEFAULT_EXPIRES
     = Inr 604800
   \<and> set_cache \<lparr>default_expires = Expires 604800, key_prefix = PNone,
       max_variable_number = 999\<rparr> (table_pickle []) []
       1700000000 (PStr ''x'') (Prim (PInt 42)) DEFAULT_EXPIRES PNone
     = (None, [\<lparr>key = ''x'', blobdata = None, intdata = Some 42, stringdata = None,
                 expires = 1700604800\<rparr>])
   \<and> (\<exists>r. filter (\<lambda>r. key r = ''x'')
              [\<lparr>key = ''x'', blobdata = None, intdata = Some 42, stringdata = None,
                 expires = 1700604800\<rparr>] = [r]
          \<and> expires r = 1700604800 \<and> expires r \<noteq> 604800)
   \<and> set_many \<lparr>default_expires = Expires 604800, key_prefix = PNone,
       max_variable_number = 999\<rparr> (table_pickle []) []
       1700000000 [(PStr ''a'', Prim (PStr ''foo'')), (PStr ''b'', Prim (PInt 7))]
       (Expires 604801) PNone
     = (None, [\<lparr>key = ''a'', blobdata = None, intdata = None, stringdata = Some ''foo'',
                 expires = 604801\<rparr>,
               \<lparr>key = ''b'', blobdata = None, intdata = Some 7, stringdata = None,
                 expires = 604801\<rparr>])
   \<and> (\<exists>r. filter (\<lambda>r. key r = ''b'')
              [\<lparr>key = ''a'', blobdata = None, intdata = None, stringdata = Some ''foo'',
                 expires = 604801\<rparr>,
               \<lparr>key = ''b'', blobdata = None, intdata = Some 7, stringdata = None,
                 expires = 604801\<rparr>] = [r]
          \<and> expires r = 604801)
   \<and> set_cache \<lparr>default_expires = Expires 604800, key_prefix = PNone,
       max_variable_number = 999\<rparr> (table_pickle []) []
       1700000000 (PStr ''x'') (Prim (PInt 42)) (Expires (- 9007199254740993)) PNone
     = (None, [\<lparr>key = ''x'', blobdata = None, intdata = Some 42, stringdata = None,
                 expires = - 9007197554740992\<rparr>])
   \<and> (\<exists>r. filter (\<lambda>r. key r = ''x'')
              [\<lparr>key = ''x'', blobdata = None, intdata = Some 42, stringdata = None,
                 expires = - 9007197554740992\<rparr>] = [r]
          \<and> float_plus_int 1700000000 (- 9007199254740993) = Inr (expires r)
          \<and> expires r = - 9007197554740992)
   \<and> set_cache \<lparr>default_expires = Expires 604800, key_prefix = PNone,
       max_variable_number = 999\<rparr> (table_pickle []) []
       1700000000 (PStr ''x'') (Prim (PInt 42)) (Expires (- (10 ^ 400))) PNone
     = (Some OverflowError, [])"
proof -
  let ?a = "\<lparr>default_expires = Expires 604800, key_prefix = PNone,
              max_variable_number = 999\<rparr>"
  let ?p = "table_pickle []"
  let ?one = "[\<lparr>key = ''x'', blobdata = None, intdata = Some 42, stringdata = None,
                 expires = 1700604800\<rparr>]"
  let ?data = "[(PStr ''a'', Prim (PStr ''foo'')), (PStr ''b'', Prim (PInt 7))]"
  let ?two = "[\<lparr>key = ''a'', blobdata = None, intdata = None, stringdata = Some ''foo'',
                 expires = 604801\<rparr>,
               \<lparr>key = ''b'', blobdata = None, intdata = Some 7, stringdata = None,
                 expires = 604801\<rparr>]"
  let ?far = "[\<lparr>key = ''x'', blobdata = None, intdata = Some 42, stringdata = None,
                 expires = - 9007197554740992\<rparr>]"
  have e1: "get_expiry ?a DEFAULT_EXPIRES = Inr 604800" by (simp add: get_expiry_def)
  have e2: "get_expiry ?a (Expires 604801) = Inr 604801" by (simp add: get_expiry_def)
  have e3: "get_expiry ?a (Expires (- 9007199254740993)) = Inr (- 9007199254740993)"
    by (simp add: get_expiry_def)
  have s1: "set_cache ?a ?p [] 1700000000 (PStr ''x'') (Prim (PInt 42)) DEFAULT_EXPIRES PNone
              = (None, ?one)"
    by (simp add: set_cache_def get_expiry_def get_key_def resolve_expires_small fits_int64_def
        execute_delete_def execute_insert_def too_many_variables_def delete_from_cache_def)
  have s2: "set_many ?a ?p [] 1700000000 ?data (Expires 604801) PNone = (None, ?two)"
    by (simp add: set_many_def get_expiry_def get_key_def resolve_expires_small fits_int64_def
        execute_delete_def executemany_def too_many_variables_def delete_from_cache_def)
  have s3: "set_cache ?a ?p [] 1700000000 (PStr ''x'') (Prim (PInt 42))
              (Expires (- 9007199254740993)) PNone = (None, ?far)"
    by (simp add: set_cache_def get_expiry_def get_key_def resolve_expires_def
        float_plus_int_rounds fits_int64_def
        execute_delete_def execute_insert_def too_many_variables_def delete_from_cache_def)
  have s4: "set_cache ?a ?p [] 1700000000 (PStr ''x'') (Prim (PInt 42))
              (Expires (- (10 ^ 400))) PNone = (Some OverflowError, [])"
    by (simp add: set_cache_def get_expiry_def resolve_expires_def float_plus_int_overflow)
  from stored_expiry [OF e1, where p = ?p and rows = "[]" and now = 1700000000
      and k = "PStr ''x''" and v = "Prim (PInt 42)" and sec = PNone and rows' = ?one] s1
  have w1: "\<exists>r. filter (\<lambda>r. key r = ''x'') ?one = [r]
          \<and> expires r = 1700604800 \<and> expires r \<noteq> 604800"
    by (simp add: get_key_def)
  from stored_expiry [OF e2, where p = ?p and rows = "[]" and now = 1700000000
      and data = ?data and sec = PNone and rows' = ?two] s2
  have w2: "\<exists>r. filter (\<lambda>r. key r = ''b'') ?two = [r] \<and> expires r = 604801"
    by (simp add: get_key_def)
  from stored_expiry [OF e3, where p = ?p and rows = "[]" and now = 1700000000
      and k = "PStr ''x''" and v = "Prim (PInt 42)" and sec = PNone and rows' = ?far] s3
  have w3: "\<exists>r. filter (\<lambda>r. key r = ''x'') ?far = [r]
          \<and> float_plus_int 1700000000 (- 9007199254740993) = Inr (expires r)
          \<and> expires r = - 9007197554740992"
    by (simp add: get_key_def float_plus_int_rounds)
  from e1 s1 w1 s2 w2 s3 w3 s4 show ?thesis by blast
qed

subsection \<open>One slot per row\<close>

lemma insert_rows_ok:
  "insert_into_cache rows (k, e, f) = Inr rows' \<Longrightarrow> one_of_three f \<Longrightarrow>
   list_all row_ok rows \<Longrightarrow> list_all row_ok rows'"
  by (cases f) (auto simp: row_ok_def row_fields_def split: sum.splits if_splits)

lemma delete_rows_ok: "list_all row_ok rows \<Longrightarrow> list_all row_ok (delete_from_cache rows ks)"
  by (simp add: delete_from_cache_def list_all_iff)

lemma insert_all_rows_ok:
  "list_all row_ok rows \<Longrightarrow> list_all (\<lambda>(k, e, f). one_of_three f) xs \<Longrightarrow>
   list_all row_ok (snd (insert_all rows xs))"
proof (induction xs arbitrary: rows)
  case Nil
  then show ?case by simp
next
  case (Cons x xs)
  obtain k e f where x: "x = (k, e, f)" by (cases x) auto
  show ?case
  proof (cases "insert_into_cache rows x")
    case (Inl err)
    then show ?thesis using Cons.prems by simp
  next
    case (Inr rows')
    with Cons.prems x have "list_all row_ok rows'" using insert_rows_ok by auto
    with Cons Inr show ?thesis by simp
  qed
qed

lemma executemany_rows_ok:
  "list_all row_ok rows \<Longrightarrow> list_all (\<lambda>(k, e, f). one_of_three f) xs \<Longrightarrow>
   list_all row_ok (snd (executemany a rows xs))"
  by (simp add: executemany_def insert_all_rows_ok)

lemma execute_delete_rows_ok:
  "execute_delete a rows ks = Inr rows1 \<Longrightarrow> list_all row_ok rows \<Longrightarrow> list_all row_ok rows1"
  using delete_rows_ok by (auto simp: execute_delete_def split: if_splits sum.splits)

lemma execute_insert_rows_ok:
  "execute_insert a rows (k, e, f) = Inr rows' \<Longrightarrow> one_of_three f \<Longrightarrow>
   list_all row_ok rows \<Longrightarrow> list_all row_ok rows'"
  using insert_rows_ok [of rows k e f rows']
  by (simp add: execute_insert_def split: if_splits del: insert_into_cache.simps)

lemma set_cache_rows_ok:
  assumes ok: "list_all row_ok rows"
  shows "list_all row_ok (snd (set_cache a p rows now k v e sec))"
proof (cases "get_expiry a e")
  case (Inl err)
  with ok show ?thesis by (simp add: set_cache_def)
next
  case x: (Inr x)
  show ?thesis
  proof (cases "resolve_expires now x")
    case (Inl err)
    with ok x show ?thesis by (simp add: set_cache_def)
  next
    case n: (Inr n)
    show ?thesis
    proof (cases "execute_delete a rows [k]")
      case (Inl err)
      with ok x n show ?thesis by (simp add: set_cache_def)
    next
      case d: (Inr rows1)
      from execute_delete_rows_ok [OF d ok] have ok1: "list_all row_ok rows1" .
      show ?thesis
      proof (cases "execute_insert a rows1 (get_key a k sec, n, from_python p v)")
        case (Inl err)
        with ok1 x n d show ?thesis by (simp add: set_cache_def)
      next
        case (Inr rows2)
        from execute_insert_rows_ok [OF Inr one_of_three_from_python ok1]
        show ?thesis using x n d Inr by (simp add: set_cache_def)
      qed
    qed
  qed
qed

lemma set_many_rows_ok:
  assumes ok: "list_all row_ok rows"
  shows "list_all row_ok (snd (set_many a p rows now data e sec))"
proof (cases "get_expiry a e")
  case (Inl err)
  with ok show ?thesis by (simp add: set_many_def)
next
  case x: (Inr x)
  show ?thesis
  proof (cases "resolve_expires now x")
    case (Inl err)
    with ok x show ?thesis by (simp add: set_many_def)
  next
    case n: (Inr n)
    have ps: "list_all (\<lambda>(k, e, f). one_of_three f)
          (map (\<lambda>(k, v). (get_key a k sec, n, from_python p v)) data)"
      by (induction data) (auto simp: one_of_three_from_python)
    show ?thesis
    proof (cases "execute_delete a rows (map fst data)")
      case (Inl err)
      with ok x n show ?thesis by (simp add: set_many_def)
    next
      case d: (Inr rows1)
      from execute_delete_rows_ok [OF d ok] have "list_all row_ok rows1" .
      from executemany_rows_ok [OF this ps] show ?thesis using x n d by (simp add: set_many_def)
    qed
  qed
qed

text \<open>
  Claim C9. For every value, exactly one of the three slots that \<open>from_python\<close> returns
  is not \<open>None\<close>; and if every row of the table has exactly one of \<open>blobdata\<close>,
  \<open>intdata\<close>, \<open>stringdata\<close> set, the same holds of the table that \<open>set\<close> or
  \<open>set_many\<close> leaves behind, whether the call completes or raises.
\<close>

theorem one_of_three_invariant:
  "one_of_three (from_python p v)
   \<and> (list_all row_ok rows \<longrightarrow>
        list_all row_ok (snd (set_cache a p rows now k v e sec))
        \<and> list_all row_ok (snd (set_many a p rows now data e sec)))"
  using one_of_three_from_python [of p v] set_cache_rows_ok [of rows a p now k v e sec]
    set_many_rows_ok [of rows a p now data e sec]
  by blast

theorem one_of_three_invariant_witness:
  "list_all row_ok
     [\<lparr>key = ''x'', blobdata = None, intdata = Some 1, stringdata = None, expires = 1700000060\<rparr>]
   \<and> snd (set_cache \<lparr>default_expires = Expires 60, key_prefix = PNone,
       max_variable_number = 999\<rparr>
       (table_pickle [(PList [Prim (PInt 1), Prim (PStr ''a'')], ''L1a'')])
       [\<lparr>key = ''x'', blobdata = None, intdata = Some 1, stringdata = None, expires = 1700000060\<rparr>]
       1700000000 (PStr ''y'') (PList [Prim (PInt 1), Prim (PStr ''a'')]) DEFAULT_EXPIRES PNone)
     = [\<lparr>key = ''x'', blobdata = None, intdata = Some 1, stringdata = None, expires = 1700000060\<rparr>,
        \<lparr>key = ''y'', blobdata = Some ''L1a'', intdata = None, stringdata = None,
          expires = 1700000060\<rparr>]
   \<and> list_all row_ok
     [\<lparr>key = ''x'', blobdata = None, intdata = Some 1, stringdata = None, expires = 1700000060\<rparr>,
      \<lparr>key = ''y'', blobdata = Some ''L1a'', intdata = None, stringdata = None,
        expires = 1700000060\<rparr>]
   \<and> one_of_three (Some ''L1a'', None, None)"
proof -
  let ?a = "\<lparr>default_expires = Expires 60, key_prefix = PNone,
       max_variable_number = 999\<rparr>"
  let ?p = "table_pickle [(PList [Prim (PInt 1), Prim (PStr ''a'')], ''L1a'')]"
  let ?v = "PList [Prim (PInt 1), Prim (PStr ''a'')]"
  let ?rows = "[\<lparr>key = ''x'', blobdata = None, intdata = Some 1, stringdata = None,
                  expires = 1700000060\<rparr>]"
  have ok: "list_all row_ok ?rows"
    by (simp add: row_ok_def row_fields_def one_of_three_def)
  have s: "snd (set_cache ?a ?p ?rows 1700000000 (PStr ''y'') ?v DEFAULT_EXPIRES PNone)
      = ?rows @ [\<lparr>key = ''y'', blobdata = Some ''L1a'', intdata = None, stringdata = None,
                   expires = 1700000060\<rparr>]"
    by (simp add: set_cache_def get_expiry_def get_key_def resolve_expires_small fits_int64_def
        execute_delete_def execute_insert_def too_many_variables_def
        delete_from_cache_def key_in_def table_pickle_def to_blob_def)
  from one_of_three_invariant [of ?p ?v ?rows ?a 1700000000 "PStr ''y''" DEFAULT_EXPIRES PNone "[]"]
    ok
  have "one_of_three (from_python ?p ?v)
      \<and> list_all row_ok (snd (set_cache ?a ?p ?rows 1700000000 (PStr ''y'') ?v
            DEFAULT_EXPIRES PNone))"
    by blast
  with ok s show ?thesis by (simp add: table_pickle_def to_blob_def)
qed

subsection \<open>The primary key\<close>

lemma insert_distinct:
  "insert_into_cache rows (k, e, f) = Inr rows' \<Longrightarrow> distinct (map key rows) \<Longrightarrow>
   distinct (map key rows')"
  by (cases f) (auto split: sum.splits if_splits)

lemma delete_distinct:
  "distinct (map key rows) \<Longrightarrow> distinct (map key (delete_from_cache rows ks))"
  by (simp add: delete_from_cache_def distinct_map_filter)

lemma insert_all_distinct:
  "distinct (map key rows) \<Longrightarrow> distinct (map key (snd (insert_all rows xs)))"
proof (induction xs arbitrary: rows)
  case Nil
  then show ?case by simp
next
  case (Cons x xs)
  obtain k e f where x: "x = (k, e, f)" by (cases x) auto
  show ?case
  proof (cases "insert_into_cache rows x")
    case (Inl err)
    then show ?thesis using Cons.prems by simp
  next
    case (Inr rows')
    with Cons.prems x have "distinct (map key rows')" using insert_distinct by auto
    with Cons Inr show ?thesis by simp
  qed
qed

lemma execute_delete_distinct:
  "execute_delete a rows ks = Inr rows1 \<Longrightarrow> distinct (map key rows) \<Longrightarrow>
   distinct (map key rows1)"
  using delete_distinct by (auto simp: execute_delete_def split: if_splits sum.splits)

lemma set_cache_distinct:
  assumes d: "distinct (map key rows)"
  shows "distinct (map key (snd (set_cache a p rows now k v e sec)))"
proof -
  have "distinct (map key rows2)"
    if "execute_delete a rows [k] = Inr rows1" and "execute_insert a rows1 (kk, n, f) = Inr rows2"
    for rows1 rows2 kk n f
    using that execute_delete_distinct [OF that(1) d] insert_distinct [of rows1 kk n f rows2]
    by (simp add: execute_insert_def split: if_splits del: insert_into_cache.simps)
  with d execute_delete_distinct [OF _ d] show ?thesis
    by (auto simp: set_cache_def Let_def split: sum.splits)
qed

lemma set_many_distinct:
  assumes d: "distinct (map key rows)"
  shows "distinct (map key (snd (set_many a p rows now data e sec)))"
  using d execute_delete_distinct [OF _ d] insert_all_distinct
  by (auto simp: set_many_def Let_def executemany_def split: sum.splits)

text \<open>
  Claim C2, evaluated. An accessor with the prefix \<open>p\<close> sets the key \<open>x\<close> on an empty
  table and gets the row \<open>p:x\<close>. A second \<open>set\<close> of \<open>x\<close>, and likewise a \<open>set_many\<close>,
  runs its \<open>DELETE\<close> with the key \<open>x\<close> as passed, which matches no row, and its
  \<open>INSERT\<close> of \<open>p:x\<close> then raises \<open>IntegrityError\<close>: the old row is still there and the
  new value is not stored. Without prefix and section the full key is the key as passed,
  and the second \<open>set\<close> replaces the row.
\<close>

theorem replace_evaluation:
  "set_cache \<lparr>default_expires = Expires 5, key_prefix = PStr ''p'',
       max_variable_number = 999\<rparr> (table_pickle []) []
      1700000000 (PStr ''x'') (Prim (PInt 1)) DEFAULT_EXPIRES PNone
     = (None, [\<lparr>key = ''p:x'', blobdata = None, intdata = Some 1, stringdata = None,
                 expires = 1700000005\<rparr>])
   \<and> set_cache \<lparr>default_expires = Expires 5, key_prefix = PStr ''p'',
       max_variable_number = 999\<rparr> (table_pickle [])
      [\<lparr>key = ''p:x'', blobdata = None, intdata = Some 1, stringdata = None,
         expires = 1700000005\<rparr>]
      1700000000 (PStr ''x'') (Prim (PInt 2)) DEFAULT_EXPIRES PNone
     = (Some IntegrityError,
        [\<lparr>key = ''p:x'', blobdata = None, intdata = Some 1, stringdata = None,
           expires = 1700000005\<rparr>])
   \<and> set_many \<lparr>default_expires = Expires 5, key_prefix = PStr ''p'',
       max_variable_number = 999\<rparr> (table_pickle [])
      [\<lparr>key = ''p:x'', blobdata = None, intdata = Some 1, stringdata = None,
         expires = 1700000005\<rparr>]
      1700000000 [(PStr ''x'', Prim (PInt 2))] DEFAULT_EXPIRES PNone
     = (Some IntegrityError,
        [\<lparr>key = ''p:x'', blobdata = None, intdata = Some 1, stringdata = None,
           expires = 1700000005\<rparr>])
   \<and> set_cache \<lparr>default_expires = Expires 5, key_prefix = PNone,
       max_variable_number = 999\<rparr> (table_pickle [])
      [\<lparr>key = ''x'', blobdata = None, intdata = Some 1, stringdata = None,
         expires = 1700000005\<rparr>]
      1700000000 (PStr ''x'') (Prim (PInt 2)) DEFAULT_EXPIRES PNone
     = (None, [\<lparr>key = ''x'', blobdata = None, intdata = Some 2, stringdata = None,
                 expires = 1700000005\<rparr>])"
  by (simp add: set_cache_def set_many_def get_expiry_def get_key_def resolve_expires_small
      fits_int64_def execute_delete_def execute_insert_def executemany_def
      too_many_variables_def delete_from_cache_def key_in_def)

subsection \<open>Reads\<close>

lemma get_allowExpired:
  "2 \<le> max_variable_number a \<Longrightarrow>
   get a p rows now k d sec True = Inl (OperationalError ''no such column: expired'')"
  by (simp add: get_def select_cache_def cache_columns_def too_many_variables_def)

lemma get_many_allowExpired:
  "length ks < max_variable_number a \<Longrightarrow>
   get_many a p rows now ks sec True = Inl (OperationalError ''no such column: expired'')"
  by (simp add: get_many_def select_cache_def cache_columns_def too_many_variables_def)

lemma get_many_too_many:
  "max_variable_number a < length ks \<Longrightarrow>
   get_many a p rows now ks sec False = Inl (OperationalError ''too many SQL variables'')"
  by (simp add: get_many_def select_cache_def too_many_variables_def)

lemma set_many_too_many:
  "get_expiry a e = Inr x \<Longrightarrow> resolve_expires now x = Inr n \<Longrightarrow>
   max_variable_number a < length data \<Longrightarrow>
   set_many a p rows now data e sec = (Some (OperationalError ''too many SQL variables''), rows)"
  by (simp add: set_many_def execute_delete_def too_many_variables_def)

lemma get_many_index_order:
  "get_many \<lparr>default_expires = DEFAULT_EXPIRES, key_prefix = PStr ''p'',
       max_variable_number = 999\<rparr> (table_pickle [])
      [\<lparr>key = ''p:'', blobdata = None, intdata = Some 1, stringdata = None,
         expires = 1700000100\<rparr>,
       \<lparr>key = ''p'', blobdata = None, intdata = Some 2, stringdata = None,
         expires = 1700000100\<rparr>]
      1700000000 [PStr [], PNone] PNone False = Inr [PStr [] \<mapsto> Prim (PInt 1)]"
  by (simp add: get_many_def get_key_def select_cache_def too_many_variables_def key_in_def
      row_fields_def reverse_key_def)

lemma get_ignores_clock:
  "get a p rows now k d sec False = get a p rows now' k d sec False"
  by (simp add: get_def select_cache_def)

text \<open>
  Claim C1, evaluated. At time 1700000000 the key \<open>x\<close> is set to 42 with the expiry
  1699999999, one second in the past. A \<open>get\<close> with \<open>allowExpired = False\<close> runs its
  \<open>SELECT\<close> with no condition on the expiry and returns 42, not the default. A \<open>get\<close>
  with \<open>allowExpired = True\<close> adds a condition on a column named \<open>expired\<close>, which the
  table does not have, and raises \<open>OperationalError\<close>.
\<close>

theorem expired_read_evaluation:
  "set_cache \<lparr>default_expires = DEFAULT_EXPIRES, key_prefix = PNone,
       max_variable_number = 999\<rparr> (table_pickle []) []
      1700000000 (PStr ''x'') (Prim (PInt 42)) (Expires (1700000000 - 1)) PNone
     = (None, [\<lparr>key = ''x'', blobdata = None, intdata = Some 42, stringdata = None,
                 expires = 1699999999\<rparr>])
   \<and> get \<lparr>default_expires = DEFAULT_EXPIRES, key_prefix = PNone,
       max_variable_number = 999\<rparr> (table_pickle [])
       [\<lparr>key = ''x'', blobdata = None, intdata = Some 42, stringdata = None,
          expires = 1699999999\<rparr>]
       1700000000 (PStr ''x'') (Default (Prim (PStr ''default''))) PNone False
     = Inr (Prim (PInt 42))
   \<and> get \<lparr>default_expires = DEFAULT_EXPIRES, key_prefix = PNone,
       max_variable_number = 999\<rparr> (table_pickle [])
       [\<lparr>key = ''x'', blobdata = None, intdata = Some 42, stringdata = None,
          expires = 1699999999\<rparr>]
       1700000000 (PStr ''x'') (Default (Prim (PStr ''default''))) PNone True
     = Inl (OperationalError ''no such column: expired'')"
  by (simp add: set_cache_def get_def get_expiry_def get_key_def resolve_expires_def
      fits_int64_def execute_delete_def execute_insert_def too_many_variables_def
      delete_from_cache_def key_in_def select_cache_def cache_columns_def row_fields_def)

subsection \<open>Deletion\<close>

lemma delete_many_removes:
  "delete_many a rows ks sec = (None, rows') \<Longrightarrow> k \<in> set ks \<Longrightarrow>
   filter (\<lambda>r. key r = get_key a k sec) rows' = []"
  by (auto simp: delete_many_def delete_from_cache_def key_in_def list_ex_iff filter_empty_conv
        split: if_splits)

text \<open>
  Claim C3, evaluated. Whatever the key, the section, the table and the number of stack
  frames the interpreter allows, \<open>delete\<close> ends with \<open>RecursionError\<close> and the table is
  as it was before the call: no entry is removed.
\<close>

theorem delete_recursion:
  "delete frames a rows k sec = (Some RecursionError, rows)"
  by (induction frames arbitrary: k) simp_all

subsection \<open>The migration\<close>

lemma queries_current: "CURRENT_VERSION \<le> version \<Longrightarrow> queries version = []"
  by (simp add: queries_def UPDATES_def CURRENT_VERSION_def)

lemma check_version_fresh:
  "check_version now \<lparr>version_table = None, cache_table = None\<rparr>
     = Inr \<lparr>version_table = Some [CURRENT_VERSION], cache_table = Some []\<rparr>"
  by (simp add: check_version_def probe_version_def select_version_def queries_def UPDATES_def
      CURRENT_VERSION_def update_version_def cleanup_def)

lemma check_version_current:
  "version_table db = Some (CURRENT_VERSION # vs) \<Longrightarrow> cache_table db = Some rows \<Longrightarrow>
   check_version now db = Inr (db\<lparr>cache_table := Some (filter (\<lambda>r. \<not> expires r < now) rows)\<rparr>)"
  by (simp add: check_version_def probe_version_def select_version_def queries_current cleanup_def)

text \<open>
  Claim C8. \<open>check_version\<close> on a store file with no tables completes and leaves the two
  tables and the version \<open>CURRENT_VERSION\<close>. On a store that records \<open>CURRENT_VERSION\<close>
  and has its \<open>cache\<close> table it completes too, with the same schema and the same recorded
  version, and changes nothing but the rows the sweeper removes; run on its own result for
  the fresh store it returns that result. For a recorded version that is not below
  \<open>CURRENT_VERSION\<close> no statement of any patch set is run.
\<close>

theorem migration_idempotent:
  "check_version now \<lparr>version_table = None, cache_table = None\<rparr>
     = Inr \<lparr>version_table = Some [CURRENT_VERSION], cache_table = Some []\<rparr>
   \<and> (version_table db = Some [CURRENT_VERSION] \<and> cache_table db = Some rows \<longrightarrow>
        (\<exists>db'. check_version now db = Inr db'
            \<and> schema db' = schema \<lparr>version_table = Some [CURRENT_VERSION], cache_table = Some []\<rparr>
            \<and> recorded_version db' = [CURRENT_VERSION]
            \<and> db' = db\<lparr>cache_table := Some (filter (\<lambda>r. \<not> expires r < now) rows)\<rparr>))
   \<and> check_version now' \<lparr>version_table = Some [CURRENT_VERSION], cache_table = Some []\<rparr>
       = Inr \<lparr>version_table = Some [CURRENT_VERSION], cache_table = Some []\<rparr>
   \<and> (CURRENT_VERSION \<le> version \<longrightarrow> queries version = [])"
proof (intro conjI impI)
  show "check_version now \<lparr>version_table = None, cache_table = None\<rparr>
     = Inr \<lparr>version_table = Some [CURRENT_VERSION], cache_table = Some []\<rparr>"
    by (rule check_version_fresh)
next
  assume h: "version_table db = Some [CURRENT_VERSION] \<and> cache_table db = Some rows"
  then have "check_version now db
      = Inr (db\<lparr>cache_table := Some (filter (\<lambda>r. \<not> expires r < now) rows)\<rparr>)"
    using check_version_current [of db "[]" rows now] by simp
  with h show "\<exists>db'. check_version now db = Inr db'
            \<and> schema db' = schema \<lparr>version_table = Some [CURRENT_VERSION], cache_table = Some []\<rparr>
            \<and> recorded_version db' = [CURRENT_VERSION]
            \<and> db' = db\<lparr>cache_table := Some (filter (\<lambda>r. \<not> expires r < now) rows)\<rparr>"
    by (simp add: schema_def recorded_version_def)
next
  show "check_version now' \<lparr>version_table = Some [CURRENT_VERSION], cache_table = Some []\<rparr>
       = Inr \<lparr>version_table = Some [CURRENT_VERSION], cache_table = Some []\<rparr>"
    using check_version_current
      [of "\<lparr>version_table = Some [CURRENT_VERSION], cache_table = Some []\<rparr>" "[]" "[]" now']
    by simp
next
  assume "CURRENT_VERSION \<le> version"
  then show "queries version = []" by (rule queries_current)
qed

theorem migration_idempotent_witness:
  "check_version 1700000000
      \<lparr>version_table = Some [1],
       cache_table = Some
         [\<lparr>key = ''old'', blobdata = None, intdata = Some 1, stringdata = None,
            expires = 1699999999\<rparr>,
          \<lparr>key = ''new'', blobdata = None, intdata = Some 2, stringdata = None,
            expires = 1700000001\<rparr>]\<rparr>
     = Inr \<lparr>version_table = Some [1],
            cache_table = Some
              [\<lparr>key = ''new'', blobdata = None, intdata = Some 2, stringdata = None,
                 expires = 1700000001\<rparr>]\<rparr>
   \<and> check_version 1700000000 \<lparr>version_table = None, cache_table = None\<rparr>
     = Inr \<lparr>version_table = Some [1], cache_table = Some []\<rparr>
   \<and> schema \<lparr>version_table = Some [1], cache_table = Some []\<rparr>
     = [(''version'', [''version'']),
        (''cache'', [''key'', ''blobdata'', ''intdata'', ''stringdata'', ''expires''])]
   \<and> queries 1 = []"
proof -
  let ?rows = "[\<lparr>key = ''old'', blobdata = None, intdata = Some 1, stringdata = None,
                  expires = 1699999999\<rparr>,
                \<lparr>key = ''new'', blobdata = None, intdata = Some 2, stringdata = None,
                  expires = 1700000001\<rparr>]"
  let ?db = "\<lparr>version_table = Some [1], cache_table = Some ?rows\<rparr>"
  from migration_idempotent [of 1700000000 ?db ?rows 1700000000 1]
  show ?thesis
    by (simp add: CURRENT_VERSION_def schema_def cache_columns_def)
qed

subsection \<open>Keys that are not strings\<close>

lemma collect_keys:
  "collect a p sec found m0 = Inr m \<Longrightarrow> m k = Some v \<Longrightarrow>
   (\<exists>s. k = PStr s) \<or> m0 k = Some v"
proof (induction found arbitrary: m0)
  case Nil
  then show ?case by simp
next
  case (Cons r rs)
  from Cons.prems(1) obtain w where
    w: "to_python p (row_fields r) = Inr w" and
    rest: "collect a p sec rs (m0(PStr (reverse_key a (key r) sec) \<mapsto> w)) = Inr m"
    by (cases "to_python p (row_fields r)") simp_all
  from Cons.IH [OF rest Cons.prems(2)] show ?case
    by (auto split: if_splits)
qed

lemma get_many_keys:
  assumes g: "get_many a p rows now ks sec ae = Inr m" and k: "m k = Some v"
  shows "\<exists>s. k = PStr s"
proof -
  from g obtain found where "collect a p sec found Map.empty = Inr m"
    by (auto simp: get_many_def Let_def split: sum.splits)
  from collect_keys [OF this k] show ?thesis by simp
qed

lemma get_key_None:
  "get_key a PNone sec = join '':'' (map py_str (filter (\<lambda>x. x \<noteq> PNone) [key_prefix a, sec]))"
  by (simp add: get_key_def)

lemma get_key_None_differs: "get_key a PNone sec \<noteq> get_key a (PStr (py_str PNone)) sec"
  by (cases "key_prefix a = PNone"; cases "sec = PNone") (simp_all add: get_key_def)

text \<open>
  Claim C10, as the code has it. Key construction stringifies every segment that is not
  \<open>None\<close>. For every integer key \<open>i\<close>, the full key of \<open>i\<close> is the full key of the
  string \<open>str(i)\<close>, and \<open>get\<close> and \<open>delete_many\<close> give the same result for the two. A
  key of \<open>None\<close> is left out of the full key, which therefore differs from the full key
  of the string \<open>str(None)\<close>. Every key of the mapping that \<open>get_many\<close> returns is a
  string, so an integer or \<open>None\<close> that was queried is never a key of the result.
\<close>

theorem stringified_keys:
  "get_key a (PInt i) sec = get_key a (PStr (py_str (PInt i))) sec
   \<and> get a p rows now (PInt i) d sec ae = get a p rows now (PStr (py_str (PInt i))) d sec ae
   \<and> delete_many a rows [PInt i] sec = delete_many a rows [PStr (py_str (PInt i))] sec
   \<and> get_key a PNone sec
       = join '':'' (map py_str (filter (\<lambda>x. x \<noteq> PNone) [key_prefix a, sec]))
   \<and> get_key a PNone sec \<noteq> get_key a (PStr (py_str PNone)) sec
   \<and> (get_many a p rows now ks sec ae = Inr m \<longrightarrow> m k = Some w \<longrightarrow> (\<exists>s. k = PStr s))"
proof (intro conjI impI)
  show "get_key a (PInt i) sec = get_key a (PStr (py_str (PInt i))) sec"
    by (rule get_key_int)
next
  show "get a p rows now (PInt i) d sec ae = get a p rows now (PStr (py_str (PInt i))) d sec ae"
    by (simp add: get_def get_key_int)
next
  show "delete_many a rows [PInt i] sec = delete_many a rows [PStr (py_str (PInt i))] sec"
    by (simp add: delete_many_def get_key_int)
next
  show "get_key a PNone sec
       = join '':'' (map py_str (filter (\<lambda>x. x \<noteq> PNone) [key_prefix a, sec]))"
    by (rule get_key_None)
next
  show "get_key a PNone sec \<noteq> get_key a (PStr (py_str PNone)) sec"
    by (rule get_key_None_differs)
next
  assume "get_many a p rows now ks sec ae = Inr m" and "m k = Some w"
  then show "\<exists>s. k = PStr s" by (rule get_many_keys)
qed

text \<open>
  The claim as stated fails at a key that is not a string: \<open>None\<close>. With a row stored
  under the string \<open>None\<close>, \<open>get(None)\<close> looks up the empty full key and returns the
  default, and \<open>get(str(None))\<close> returns the row.
\<close>

theorem stringified_keys_counterexample:
  "get \<lparr>default_expires = DEFAULT_EXPIRES, key_prefix = PNone,
       max_variable_number = 999\<rparr> (table_pickle [])
      [\<lparr>key = ''None'', blobdata = None, intdata = Some 7, stringdata = None,
         expires = 1700000100\<rparr>]
      1700000000 PNone NO_DEFAULT PNone False
     = Inr (Prim PNone)
   \<and> get \<lparr>default_expires = DEFAULT_EXPIRES, key_prefix = PNone,
       max_variable_number = 999\<rparr> (table_pickle [])
      [\<lparr>key = ''None'', blobdata = None, intdata = Some 7, stringdata = None,
         expires = 1700000100\<rparr>]
      1700000000 (PStr (py_str PNone)) NO_DEFAULT PNone False
     = Inr (Prim (PInt 7))
   \<and> get \<lparr>default_expires = DEFAULT_EXPIRES, key_prefix = PNone,
       max_variable_number = 999\<rparr> (table_pickle [])
      [\<lparr>key = ''None'', blobdata = None, intdata = Some 7, stringdata = None,
         expires = 1700000100\<rparr>]
      1700000000 PNone NO_DEFAULT PNone False
   \<noteq> get \<lparr>default_expires = DEFAULT_EXPIRES, key_prefix = PNone,
       max_variable_number = 999\<rparr> (table_pickle [])
      [\<lparr>key = ''None'', blobdata = None, intdata = Some 7, stringdata = None,
         expires = 1700000100\<rparr>]
      1700000000 (PStr (py_str PNone)) NO_DEFAULT PNone False"
  by (simp add: get_def get_key_def select_cache_def too_many_variables_def key_in_def
      row_fields_def)

theorem stringified_keys_witness:
  "get \<lparr>default_expires = DEFAULT_EXPIRES, key_prefix = PStr ''p'',
       max_variable_number = 999\<rparr> (table_pickle [])
      [\<lparr>key = ''p:5'', blobdata = None, intdata = Some 7, stringdata = None,
         expires = 1700000100\<rparr>]
      1700000000 (PInt 5) NO_DEFAULT PNone False = Inr (Prim (PInt 7))
   \<and> get \<lparr>default_expires = DEFAULT_EXPIRES, key_prefix = PStr ''p'',
       max_variable_number = 999\<rparr> (table_pickle [])
      [\<lparr>key = ''p:5'', blobdata = None, intdata = Some 7, stringdata = None,
         expires = 1700000100\<rparr>]
      1700000000 (PStr ''5'') NO_DEFAULT PNone False = Inr (Prim (PInt 7))
   \<and> get_key \<lparr>default_expires = DEFAULT_EXPIRES, key_prefix = PStr ''p'',
       max_variable_number = 999\<rparr> (PInt 5) PNone = ''p:5''
   \<and> get_key \<lparr>default_expires = DEFAULT_EXPIRES, key_prefix = PStr ''p'',
       max_variable_number = 999\<rparr> PNone PNone = ''p''
   \<and> get_key \<lparr>default_expires = DEFAULT_EXPIRES, key_prefix = PStr ''p'',
       max_variable_number = 999\<rparr> (PStr ''None'') PNone = ''p:None''
   \<and> get_many \<lparr>default_expires = DEFAULT_EXPIRES, key_prefix = PStr ''p'',
       max_variable_number = 999\<rparr> (table_pickle [])
      [\<lparr>key = ''p:5'', blobdata = None, intdata = Some 7, stringdata = None,
         expires = 1700000100\<rparr>]
      1700000000 [PInt 5] PNone False = Inr [PStr ''5'' \<mapsto> Prim (PInt 7)]
   \<and> [PStr ''5'' \<mapsto> Prim (PInt 7)] (PInt 5) = None"
proof -
  let ?a = "\<lparr>default_expires = DEFAULT_EXPIRES, key_prefix = PStr ''p'',
              max_variable_number = 999\<rparr>"
  let ?p = "table_pickle []"
  let ?rows = "[\<lparr>key = ''p:5'', blobdata = None, intdata = Some 7, stringdata = None,
                  expires = 1700000100\<rparr>]"
  have g: "get ?a ?p ?rows 1700000000 (PStr ''5'') NO_DEFAULT PNone False = Inr (Prim (PInt 7))"
    by (simp add: get_def get_key_def select_cache_def too_many_variables_def key_in_def
        row_fields_def)
  have m: "get_many ?a ?p ?rows 1700000000 [PInt 5] PNone False
             = Inr [PStr ''5'' \<mapsto> Prim (PInt 7)]"
    by (simp add: get_many_def get_key_def select_cache_def too_many_variables_def key_in_def
        row_fields_def reverse_key_def str_int_5)
  have k: "get_key ?a (PStr ''None'') PNone = ''p:None''" by (simp add: get_key_def)
  from stringified_keys [where a = ?a and p = ?p and rows = ?rows and now = 1700000000
      and i = 5 and d = NO_DEFAULT and sec = PNone and ae = False]
  have t: "get_key ?a (PInt 5) PNone = get_key ?a (PStr ''5'') PNone
      \<and> get ?a ?p ?rows 1700000000 (PInt 5) NO_DEFAULT PNone False
          = get ?a ?p ?rows 1700000000 (PStr ''5'') NO_DEFAULT PNone False
      \<and> get_key ?a PNone PNone = ''p''"
    by (simp add: str_int_5)
  have k5: "get_key ?a (PStr ''5'') PNone = ''p:5''" by (simp add: get_key_def)
  from t g m k k5 show ?thesis by simp
qed

end
